theory Spec2Isabelle
  imports Main "HOL-Library.Word"
begin

unbundle bit_operations_syntax

section \<open>SEthernet driver: receive path, interrupt dispatch, transmit and control\<close>

text \<open>
  The repository holds the interrupt code twice: \<^verbatim>\<open>src/software/driver/isr.c\<close> and a
  later revision of the same file, \<^verbatim>\<open>src/unnamed/part_000\<close>. Both are embedded; a
  definition taken from the first carries the suffix \<open>_isr\<close>, one taken from the second
  the suffix \<open>_part000\<close>. \<^verbatim>\<open>doEWrite\<close> and \<^verbatim>\<open>driverControl\<close> come from
  \<^verbatim>\<open>src/unnamed/part_001\<close>; the structure declarations (driver globals, ring descriptor,
  Ethernet header, table entries) come from the header text that follows the build script
  in \<^verbatim>\<open>src/installer/Build.mpw\<close>.

  The chip access layer (\<^verbatim>\<open>enc624j600_*\<close>), the protocol-handler and multicast tables
  (\<^verbatim>\<open>findPH\<close>, \<^verbatim>\<open>findMulticastEntry\<close>) and the Mac OS calls are not part of the sources.
  Every call into them is recorded as an \<open>event\<close> in a log, in program order, and every
  value they return is supplied by an environment \<open>env\<close> as a function of the log so far.
  What such a call does to the chip is not modelled, and a call is taken to leave the
  driver globals as they are; in particular a protocol handler, which is handed the
  workspace behind the header in the receive header area, leaves the copied header alone.
  Debug-only statements (\<^verbatim>\<open>DBGP\<close>, \<^verbatim>\<open>debug_log\<close>, \<^verbatim>\<open>DebugStr\<close>) are left out.
\<close>

subsection \<open>Data\<close>

type_synonym u16 = "16 word"
type_synonym u32 = "32 word"
type_synonym hwAddr = "8 word list"
type_synonym ptr = nat

definition nil :: ptr where
  "nil = 0"

text \<open>Mac OS result codes (Errors.h): \<^verbatim>\<open>noErr\<close>, \<^verbatim>\<open>controlErr\<close>, \<^verbatim>\<open>eLenErr\<close>,
  \<^verbatim>\<open>excessCollsns\<close>.\<close>

definition noErr :: int where
  "noErr = 0"

definition controlErr :: int where
  "controlErr = - 17"

definition eLenErr :: int where
  "eLenErr = - 92"

definition excessCollsns :: "int" where
  "excessCollsns = - 95"

text \<open>Interrupt flags of the controller (the masks \<^verbatim>\<open>IRQ_*\<close> of
  enc624j600_registers.h, one flag per mask). A C expression \<^verbatim>\<open>status & (A | B)\<close> reads
  \<open>status \<inter> {A, B} \<noteq> {}\<close>.\<close>

datatype irq = IRQ_ENABLE | IRQ_LINK | IRQ_PKT | IRQ_RX_ABORT | IRQ_PCNT_FULL
  | IRQ_TX | IRQ_TX_ABORT

text \<open>Bits of the receive status vector tested through \<^verbatim>\<open>RSV_BIT\<close>.\<close>

datatype rsv_bit = RSV_BIT_CRC_ERR | RSV_BIT_UNICAST | RSV_BIT_BROADCAST
  | RSV_BIT_MULTICAST | RSV_BIT_HASH_MATCH

record enc624j600_rsv =
  pkt_len_le :: u16
  rsv_bits :: "rsv_bit set"

definition RSV_BIT :: "enc624j600_rsv \<Rightarrow> rsv_bit \<Rightarrow> bool" where
  "RSV_BIT r b = (b \<in> rsv_bits r)"

record ethernetHeader =
  dest :: hwAddr
  source :: hwAddr
  protocol :: u16

record ringbufEntry =
  nextPkt_le :: u16
  rsv :: enc624j600_rsv
  pktHeader :: ethernetHeader

record protocolHandlerEntry =
  ethertype :: u16
  handler :: ptr

record multicastEntry =
  address :: hwAddr
  refCount :: "8 word"

definition phProtocolPhaseII :: u16 where
  "phProtocolPhaseII = 0"

definition sizeof_ethernetHeader :: u16 where
  "sizeof_ethernetHeader = 14"

text \<open>The fields of the transmit status register \<^verbatim>\<open>ETXSTAT\<close> that \<^verbatim>\<open>userISR\<close> tests:
  the flags behind \<^verbatim>\<open>ETXSTAT_DEFER\<close>, \<^verbatim>\<open>ETXSTAT_EXDEFER\<close>, \<^verbatim>\<open>ETXSTAT_MAXCOL\<close>,
  \<^verbatim>\<open>ETXSTAT_LATECOL\<close>, and the collision count
  \<^verbatim>\<open>(txstat & ETXSTAT_COLCNT_MASK) >> ETXSTAT_COLCNT_SHIFT\<close>.\<close>

record etxstat =
  DEFER :: bool
  EXDEFER :: bool
  MAXCOL :: bool
  LATECOL :: bool
  COLCNT :: u16

text \<open>The counters of the driver info block that the embedded code touches.\<close>

record driverInfo =
  ethernetAddress :: hwAddr
  rxPendingPacketsHWM :: u32
  rxPendingBytesHWM :: u32
  fcsErrors :: u32
  rxRunt :: u32
  rxTooLong :: u32
  rxUnwanted :: u32
  rxUnknownProto :: u32
  broadcastRxFrameCount :: u32
  multicastRxFrameCount :: u32
  rxFrameCount :: u32
  txFrameCount :: u32
  deferredFrames :: u32
  collisionFrames :: u32
  singleCollisionFrames :: u32
  multiCollisionFrames :: u32
  excessiveDeferrals :: u32
  excessiveCollisions :: u32
  lateCollisions :: u32
  internalTxErrors :: u32
  internalRxErrors :: u32

datatype link_state = LINK_DOWN | LINK_UP

record driverGlobals =
  chip_link_state :: link_state
  vmEnabled :: bool
  protocolHandlers :: "protocolHandlerEntry list"
  multicasts :: "multicastEntry list"
  rha :: ringbufEntry
  info :: driverInfo

subsection \<open>Calls that leave the embedded code\<close>

datatype event =
    Ev_read_rx_pending_count
  | Ev_read_rx_fifo_level
  | Ev_read_rxbuf
  | Ev_callPH ptr u16
  | Ev_update_rxptr u16
  | Ev_decrement_rx_pending_count
  | Ev_read_irqstate
  | Ev_read_ETXSTAT
  | Ev_clear_irq "irq set"
  | Ev_enable_irq "irq set"
  | Ev_disable_irq "irq set"
  | Ev_duplex_sync
  | Ev_IODone int
  | Ev_DeferUserFn
  | Ev_memcpy int ptr u16
  | Ev_memcpy_hwaddr int hwAddr
  | Ev_transmit u32
  | Ev_BlockMoveData ptr int
  | Ev_other_control

text \<open>
  \<open>Ev_update_rxptr a\<close> stands for
  \<^verbatim>\<open>enc624j600_update_rxptr(chip, enc624j600_addr_to_ptr(chip, a))\<close>: the argument kept is
  the chip address \<open>a\<close>. \<open>Ev_memcpy d s n\<close> is \<^verbatim>\<open>enc624j600_memcpy\<close> to offset \<open>d\<close> of the
  transmit buffer (\<^verbatim>\<open>base_address + ENC_TX_BUF_START\<close>) from \<open>s\<close>, with length argument
  \<open>n\<close>. \<open>Ev_transmit n\<close> is \<^verbatim>\<open>enc624j600_transmit(chip, base_address, n)\<close>.
\<close>

record env =
  enc624j600_read_rx_pending_count :: "event list \<Rightarrow> u16"
  enc624j600_read_rx_fifo_level :: "event list \<Rightarrow> u16"
  enc624j600_read_rxbuf :: "event list \<Rightarrow> ringbufEntry"
  enc624j600_read_irqstate :: "event list \<Rightarrow> irq set"
  read_ETXSTAT :: "event list \<Rightarrow> etxstat"
  DeferUserFn :: "event list \<Rightarrow> int"

text \<open>Modelled from the spec: the macro \<^verbatim>\<open>SWAPBYTES\<close> of util.h is not in the sources;
  it exchanges the two bytes of a 16-bit value.\<close>

definition SWAPBYTES :: "u16 \<Rightarrow> u16" where
  "SWAPBYTES w = (push_bit 8 w) OR (drop_bit 8 w)"

text \<open>Modelled from the spec: \<^verbatim>\<open>findPH\<close> (protocolhandler.c) is not in the sources; the
  registry lookup is a linear scan of the table for the identifier, with no-match as a
  distinguished outcome.\<close>

definition findPH :: "driverGlobals \<Rightarrow> u16 \<Rightarrow> protocolHandlerEntry option" where
  "findPH g proto = find (\<lambda>e. ethertype e = proto) (protocolHandlers g)"

text \<open>Modelled from the spec: \<^verbatim>\<open>findMulticastEntry\<close> (multicast.c) is not in the
  sources; it is the exact-match lookup of an address in the multicast table.\<close>

definition findMulticastEntry :: "driverGlobals \<Rightarrow> hwAddr \<Rightarrow> multicastEntry option" where
  "findMulticastEntry g a = find (\<lambda>e. address e = a) (multicasts g)"

subsection \<open>The receive path: \<^verbatim>\<open>handlePacket\<close>\<close>

text \<open>The first statements are the same in both revisions: the two high-water marks and
  the copy of the ring descriptor into the receive header area.\<close>

definition record_fifo_stats :: "env \<Rightarrow> driverGlobals \<Rightarrow> event list \<Rightarrow> driverGlobals \<times> event list" where
  "record_fifo_stats ev g lg =
     (let packetsPending = enc624j600_read_rx_pending_count ev lg;
          lg1 = lg @ [Ev_read_rx_pending_count];
          g1 = (if ucast packetsPending > rxPendingPacketsHWM (info g)
                then g\<lparr>info := (info g)\<lparr>rxPendingPacketsHWM := ucast packetsPending\<rparr>\<rparr>
                else g);
          bytesPending = enc624j600_read_rx_fifo_level ev lg1;
          lg2 = lg1 @ [Ev_read_rx_fifo_level];
          g2 = (if ucast bytesPending > rxPendingBytesHWM (info g1)
                then g1\<lparr>info := (info g1)\<lparr>rxPendingBytesHWM := ucast bytesPending\<rparr>\<rparr>
                else g1)
      in (g2, lg2))"

definition read_header :: "env \<Rightarrow> driverGlobals \<Rightarrow> event list \<Rightarrow> driverGlobals \<times> event list" where
  "read_header ev g lg = (g\<lparr>rha := enc624j600_read_rxbuf ev lg\<rparr>, lg @ [Ev_read_rxbuf])"

text \<open>\<^verbatim>\<open>src/unnamed/part_000\<close>: the value of \<^verbatim>\<open>pktLen\<close>, the code from the label
  \<^verbatim>\<open>accept\<close> up to the label \<^verbatim>\<open>drop\<close>, the checks before it, and the whole function.\<close>

definition pktLen_part000 :: "driverGlobals \<Rightarrow> u16" where
  "pktLen_part000 g = SWAPBYTES (pkt_len_le (rsv (rha g))) - 4"

definition accept_part000 :: "driverGlobals \<Rightarrow> event list \<Rightarrow> driverGlobals \<times> event list" where
  "accept_part000 g lg =
     (let pktLen = pktLen_part000 g;
          protocolSlot = (if protocol (pktHeader (rha g)) < 0x0600
                          then findPH g phProtocolPhaseII
                          else findPH g (protocol (pktHeader (rha g))))
      in case protocolSlot of
           None \<Rightarrow> (g\<lparr>info := (info g)\<lparr>rxUnknownProto := rxUnknownProto (info g) + 1\<rparr>\<rparr>, lg)
         | Some slot \<Rightarrow>
             if handler slot = nil
             then (g\<lparr>info := (info g)\<lparr>rxUnknownProto := rxUnknownProto (info g) + 1\<rparr>\<rparr>, lg)
             else (g\<lparr>info := (info g)\<lparr>rxFrameCount := rxFrameCount (info g) + 1\<rparr>\<rparr>,
                   lg @ [Ev_callPH (handler slot) (pktLen - sizeof_ethernetHeader)]))"

definition classify_part000 :: "driverGlobals \<Rightarrow> event list \<Rightarrow> driverGlobals \<times> event list" where
  "classify_part000 g lg =
     (let pktLen = pktLen_part000 g in
      if RSV_BIT (rsv (rha g)) RSV_BIT_CRC_ERR
      then (g\<lparr>info := (info g)\<lparr>fcsErrors := fcsErrors (info g) + 1\<rparr>\<rparr>, lg)
      else if pktLen < 60
      then (g\<lparr>info := (info g)\<lparr>rxRunt := rxRunt (info g) + 1\<rparr>\<rparr>, lg)
      else if pktLen > 1514
      then (g\<lparr>info := (info g)\<lparr>rxTooLong := rxTooLong (info g) + 1\<rparr>\<rparr>, lg)
      else if RSV_BIT (rsv (rha g)) RSV_BIT_UNICAST
      then accept_part000 g lg
      else if RSV_BIT (rsv (rha g)) RSV_BIT_BROADCAST
      then accept_part000
             (g\<lparr>info := (info g)\<lparr>broadcastRxFrameCount := broadcastRxFrameCount (info g) + 1\<rparr>\<rparr>) lg
      else if RSV_BIT (rsv (rha g)) RSV_BIT_MULTICAST \<and> RSV_BIT (rsv (rha g)) RSV_BIT_HASH_MATCH
      then accept_part000
             (g\<lparr>info := (info g)\<lparr>multicastRxFrameCount := multicastRxFrameCount (info g) + 1\<rparr>\<rparr>) lg
      else (g\<lparr>info := (info g)\<lparr>rxUnwanted := rxUnwanted (info g) + 1\<rparr>\<rparr>, lg))"

definition handlePacket_part000 :: "env \<Rightarrow> driverGlobals \<Rightarrow> event list \<Rightarrow> driverGlobals \<times> event list" where
  "handlePacket_part000 ev g lg =
     (let (g1, lg1) = record_fifo_stats ev g lg;
          (g2, lg2) = read_header ev g1 lg1;
          nextPacket = SWAPBYTES (nextPkt_le (rha g2));
          (g3, lg3) = classify_part000 g2 lg2
      in (g3, lg3 @ [Ev_update_rxptr nextPacket, Ev_decrement_rx_pending_count]))"

text \<open>\<^verbatim>\<open>src/software/driver/isr.c\<close>: \<^verbatim>\<open>pktLen\<close> is the swapped field itself, the
  multicast branch asks the multicast table, a missing handler counts nothing, and the
  next-packet field is read from the receive header area after the handler has run.\<close>

definition pktLen_isr :: "driverGlobals \<Rightarrow> u16" where
  "pktLen_isr g = SWAPBYTES (pkt_len_le (rsv (rha g)))"

definition accept_isr :: "driverGlobals \<Rightarrow> event list \<Rightarrow> driverGlobals \<times> event list" where
  "accept_isr g lg =
     (let pktLen = pktLen_isr g;
          protocolSlot = (if protocol (pktHeader (rha g)) < 0x0600
                          then findPH g phProtocolPhaseII
                          else findPH g (protocol (pktHeader (rha g))))
      in case protocolSlot of
           None \<Rightarrow> (g, lg)
         | Some slot \<Rightarrow>
             if handler slot = nil
             then (g, lg)
             else (g\<lparr>info := (info g)\<lparr>rxFrameCount := rxFrameCount (info g) + 1\<rparr>\<rparr>,
                   lg @ [Ev_callPH (handler slot) (pktLen - 18)]))"

definition classify_isr :: "driverGlobals \<Rightarrow> event list \<Rightarrow> driverGlobals \<times> event list" where
  "classify_isr g lg =
     (let pktLen = pktLen_isr g in
      if RSV_BIT (rsv (rha g)) RSV_BIT_CRC_ERR
      then (g\<lparr>info := (info g)\<lparr>fcsErrors := fcsErrors (info g) + 1\<rparr>\<rparr>, lg)
      else if pktLen < 64
      then (g\<lparr>info := (info g)\<lparr>rxRunt := rxRunt (info g) + 1\<rparr>\<rparr>, lg)
      else if pktLen > 1518
      then (g\<lparr>info := (info g)\<lparr>rxTooLong := rxTooLong (info g) + 1\<rparr>\<rparr>, lg)
      else if RSV_BIT (rsv (rha g)) RSV_BIT_UNICAST
      then accept_isr g lg
      else if RSV_BIT (rsv (rha g)) RSV_BIT_BROADCAST
      then accept_isr
             (g\<lparr>info := (info g)\<lparr>broadcastRxFrameCount := broadcastRxFrameCount (info g) + 1\<rparr>\<rparr>) lg
      else if RSV_BIT (rsv (rha g)) RSV_BIT_MULTICAST \<and> RSV_BIT (rsv (rha g)) RSV_BIT_HASH_MATCH
      then (case findMulticastEntry g (dest (pktHeader (rha g))) of
              Some m \<Rightarrow> accept_isr
                (g\<lparr>info := (info g)\<lparr>multicastRxFrameCount := multicastRxFrameCount (info g) + 1\<rparr>\<rparr>) lg
            | None \<Rightarrow> (g\<lparr>info := (info g)\<lparr>rxUnwanted := rxUnwanted (info g) + 1\<rparr>\<rparr>, lg))
      else (g\<lparr>info := (info g)\<lparr>rxUnwanted := rxUnwanted (info g) + 1\<rparr>\<rparr>, lg))"

definition handlePacket_isr :: "env \<Rightarrow> driverGlobals \<Rightarrow> event list \<Rightarrow> driverGlobals \<times> event list" where
  "handlePacket_isr ev g lg =
     (let (g1, lg1) = record_fifo_stats ev g lg;
          (g2, lg2) = read_header ev g1 lg1;
          (g3, lg3) = classify_isr g2 lg2
      in (g3, lg3 @ [Ev_update_rxptr (SWAPBYTES (nextPkt_le (rha g3))),
                     Ev_decrement_rx_pending_count]))"

subsection \<open>The bottom half: \<^verbatim>\<open>userISR\<close>\<close>

text \<open>The statistics of a completed and of an aborted transmission are the same
  statements in both revisions.\<close>

definition tx_complete_stats :: "etxstat \<Rightarrow> driverInfo \<Rightarrow> driverInfo" where
  "tx_complete_stats txstat i =
     (let collisions = COLCNT txstat;
          i1 = (if DEFER txstat then i\<lparr>deferredFrames := deferredFrames i + 1\<rparr> else i);
          i2 = (if collisions \<ge> 1
                then (let i' = i1\<lparr>collisionFrames := collisionFrames i1 + 1\<rparr> in
                      if collisions = 1
                      then i'\<lparr>singleCollisionFrames := singleCollisionFrames i' + 1\<rparr>
                      else i'\<lparr>multiCollisionFrames := multiCollisionFrames i' + 1\<rparr>)
                else i1)
      in i2\<lparr>txFrameCount := txFrameCount i2 + 1\<rparr>)"

definition tx_abort_stats :: "etxstat \<Rightarrow> driverInfo \<Rightarrow> driverInfo" where
  "tx_abort_stats txstat i =
     (if EXDEFER txstat then i\<lparr>excessiveDeferrals := excessiveDeferrals i + 1\<rparr>
      else if MAXCOL txstat then i\<lparr>excessiveCollisions := excessiveCollisions i + 1\<rparr>
      else if LATECOL txstat then i\<lparr>lateCollisions := lateCollisions i + 1\<rparr>
      else i\<lparr>internalTxErrors := internalTxErrors i + 1\<rparr>)"

text \<open>\<^verbatim>\<open>src/unnamed/part_000\<close>: the transmit part (\<^verbatim>\<open>if\<close> \<dots> \<^verbatim>\<open>else if\<close>), the receive
  loop, and the whole function. The loop runs as long as the chip reports \<^verbatim>\<open>IRQ_PKT\<close>,
  so it need not end: its result is an option.\<close>

definition tx_part_part000 :: "env \<Rightarrow> driverGlobals \<Rightarrow> event list \<Rightarrow> driverGlobals \<times> event list" where
  "tx_part_part000 ev g lg =
     (let irq_status = enc624j600_read_irqstate ev lg;
          lg1 = lg @ [Ev_read_irqstate]
      in if IRQ_TX \<in> irq_status
         then (let txstat = read_ETXSTAT ev lg1
               in (g\<lparr>info := tx_complete_stats txstat (info g)\<rparr>,
                   lg1 @ [Ev_read_ETXSTAT, Ev_clear_irq {IRQ_TX}, Ev_IODone noErr]))
         else if IRQ_TX_ABORT \<in> irq_status
         then (let txstat = read_ETXSTAT ev lg1
               in (g\<lparr>info := tx_abort_stats txstat (info g)\<rparr>,
                   lg1 @ [Ev_read_ETXSTAT, Ev_clear_irq {IRQ_TX_ABORT}, Ev_IODone excessCollsns]))
         else (g, lg1))"

partial_function (option) rx_loop_part000 ::
  "env \<Rightarrow> driverGlobals \<Rightarrow> event list \<Rightarrow> (driverGlobals \<times> event list) option" where
  "rx_loop_part000 ev g lg =
     (if IRQ_PKT \<in> enc624j600_read_irqstate ev lg
      then rx_loop_part000 ev
             (fst (handlePacket_part000 ev g (lg @ [Ev_read_irqstate])))
             (snd (handlePacket_part000 ev g (lg @ [Ev_read_irqstate])))
      else Some (g, lg @ [Ev_read_irqstate]))"

definition userISR_part000 ::
  "env \<Rightarrow> driverGlobals \<Rightarrow> event list \<Rightarrow> (driverGlobals \<times> event list) option" where
  "userISR_part000 ev g lg =
     (case rx_loop_part000 ev (fst (tx_part_part000 ev g lg)) (snd (tx_part_part000 ev g lg)) of
        None \<Rightarrow> None
      | Some (g2, lg2) \<Rightarrow> Some (g2, lg2 @ [Ev_enable_irq {IRQ_ENABLE}]))"

text \<open>\<^verbatim>\<open>src/software/driver/isr.c\<close>: two independent \<^verbatim>\<open>if\<close> statements, and in each
  \<^verbatim>\<open>IODone\<close> comes before \<^verbatim>\<open>enc624j600_clear_irq\<close>.\<close>

definition tx_part_isr :: "env \<Rightarrow> driverGlobals \<Rightarrow> event list \<Rightarrow> driverGlobals \<times> event list" where
  "tx_part_isr ev g lg =
     (let irq_status = enc624j600_read_irqstate ev lg;
          lg1 = lg @ [Ev_read_irqstate];
          (g2, lg2) =
            (if IRQ_TX \<in> irq_status
             then (let txstat = read_ETXSTAT ev lg1
                   in (g\<lparr>info := tx_complete_stats txstat (info g)\<rparr>,
                       lg1 @ [Ev_read_ETXSTAT, Ev_IODone noErr, Ev_clear_irq {IRQ_TX}]))
             else (g, lg1))
      in if IRQ_TX_ABORT \<in> irq_status
         then (let txstat = read_ETXSTAT ev lg2
               in (g2\<lparr>info := tx_abort_stats txstat (info g2)\<rparr>,
                   lg2 @ [Ev_read_ETXSTAT, Ev_IODone excessCollsns, Ev_clear_irq {IRQ_TX_ABORT}]))
         else (g2, lg2))"

partial_function (option) rx_loop_isr ::
  "env \<Rightarrow> driverGlobals \<Rightarrow> event list \<Rightarrow> (driverGlobals \<times> event list) option" where
  "rx_loop_isr ev g lg =
     (if IRQ_PKT \<in> enc624j600_read_irqstate ev lg
      then rx_loop_isr ev
             (fst (handlePacket_isr ev g (lg @ [Ev_read_irqstate])))
             (snd (handlePacket_isr ev g (lg @ [Ev_read_irqstate])))
      else Some (g, lg @ [Ev_read_irqstate]))"

definition userISR_isr ::
  "env \<Rightarrow> driverGlobals \<Rightarrow> event list \<Rightarrow> (driverGlobals \<times> event list) option" where
  "userISR_isr ev g lg =
     (case rx_loop_isr ev (fst (tx_part_isr ev g lg)) (snd (tx_part_isr ev g lg)) of
        None \<Rightarrow> None
      | Some (g2, lg2) \<Rightarrow> Some (g2, lg2 @ [Ev_enable_irq {IRQ_ENABLE}]))"

subsection \<open>The top half: \<^verbatim>\<open>driverISR\<close>\<close>

text \<open>The link and receive-overflow causes are handled in the same way in both
  revisions; the result carries the flag \<^verbatim>\<open>irq_handled\<close>.\<close>

definition top_inline :: "irq set \<Rightarrow> driverGlobals \<Rightarrow> event list \<Rightarrow> u32 \<times> driverGlobals \<times> event list" where
  "top_inline irq_status g lg =
     (let (h1, lg1) = (if IRQ_LINK \<in> irq_status
                       then (1, lg @ [Ev_duplex_sync, Ev_clear_irq {IRQ_LINK}])
                       else (0, lg))
      in if irq_status \<inter> {IRQ_RX_ABORT, IRQ_PCNT_FULL} \<noteq> {}
         then (1, g\<lparr>info := (info g)\<lparr>internalRxErrors := internalRxErrors (info g) + 1\<rparr>\<rparr>,
               lg1 @ [Ev_clear_irq {IRQ_RX_ABORT, IRQ_PCNT_FULL}])
         else (h1, g, lg1))"

datatype target = TARGET_SE30 | TARGET_SE

text \<open>\<^verbatim>\<open>src/unnamed/part_000\<close>, \<^verbatim>\<open>driverISR\<close>, for either build target.\<close>

definition driverISR_part000 ::
  "target \<Rightarrow> env \<Rightarrow> driverGlobals \<Rightarrow> event list \<Rightarrow> (u32 \<times> driverGlobals \<times> event list) option" where
  "driverISR_part000 tgt ev g lg =
     (let lg0 = lg @ [Ev_disable_irq {IRQ_ENABLE}];
          irq_status = enc624j600_read_irqstate ev lg0;
          (h, g1, lg1) = top_inline irq_status g (lg0 @ [Ev_read_irqstate])
      in if irq_status \<inter> {IRQ_TX, IRQ_TX_ABORT, IRQ_PKT} \<noteq> {}
         then (if tgt = TARGET_SE30 \<and> vmEnabled g1
               then (if DeferUserFn ev lg1 \<noteq> noErr
                     then Some (0, g1, lg1 @ [Ev_DeferUserFn, Ev_enable_irq {IRQ_ENABLE}])
                     else Some (1, g1, lg1 @ [Ev_DeferUserFn]))
               else (case userISR_part000 ev g1 lg1 of
                       None \<Rightarrow> None
                     | Some (g2, lg2) \<Rightarrow> Some (1, g2, lg2 @ [Ev_enable_irq {IRQ_ENABLE}])))
         else Some (h, g1, lg1 @ [Ev_enable_irq {IRQ_ENABLE}]))"

text \<open>\<^verbatim>\<open>src/software/driver/isr.c\<close>, \<^verbatim>\<open>_driverISR\<close>; the flag is named \<^verbatim>\<open>usingVM\<close>
  there.\<close>

definition driverISR_isr ::
  "env \<Rightarrow> driverGlobals \<Rightarrow> event list \<Rightarrow> (u32 \<times> driverGlobals \<times> event list) option" where
  "driverISR_isr ev g lg =
     (let lg0 = lg @ [Ev_disable_irq {IRQ_ENABLE}];
          irq_status = enc624j600_read_irqstate ev lg0;
          (h, g1, lg1) = top_inline irq_status g (lg0 @ [Ev_read_irqstate])
      in if irq_status \<inter> {IRQ_TX, IRQ_TX_ABORT, IRQ_PKT} \<noteq> {}
         then (if vmEnabled g1
               then (if DeferUserFn ev lg1 \<noteq> noErr
                     then Some (0, g1, lg1 @ [Ev_DeferUserFn, Ev_enable_irq {IRQ_ENABLE}])
                     else Some (1, g1, lg1 @ [Ev_DeferUserFn]))
               else (case userISR_isr ev g1 lg1 of
                       None \<Rightarrow> None
                     | Some (g2, lg2) \<Rightarrow> Some (1, g2, lg2)))
         else Some (h, g1, lg1 @ [Ev_enable_irq {IRQ_ENABLE}]))"

subsection \<open>Transmit: \<^verbatim>\<open>doEWrite\<close>\<close>

text \<open>
  A write data structure is an array of address-length pairs in the caller's memory; the
  parameter block points at its first entry. The model is given the entries that lie in
  memory from that address on, as a list. The C code has no bound on its scan: where it
  would read an entry beyond the ones given, the model stops with \<open>ReadPastEnd\<close>.
  \<^verbatim>\<open>entryLength\<close> is a signed 16-bit \<^verbatim>\<open>short\<close>, \<^verbatim>\<open>totalLength\<close> an unsigned 32-bit
  \<^verbatim>\<open>long\<close>; \<^verbatim>\<open>ENC_TX_BUF_START\<close> is 0.
\<close>

datatype fault = ReadPastEnd

record WDSElement =
  entryLength :: u16
  entryPtr :: ptr

datatype csCode = ENetDelMulti | ENetAddMulti | ENetAttachPH | ENetDetachPH | ENetRead
  | ENetRdCancel | ENetWrite | ENetGetInfo | ENetSetGeneral | ENCReadReg | ENCWriteReg
  | ENCReadPhy | ENCWritePhy | ENCEnableLoopback | ENCDisableLoopback | UnknownCode

record EParamBlk =
  csCode :: csCode
  eBuffSize :: u16
  ePointer :: ptr
  wds :: "WDSElement list"

text \<open>\<^verbatim>\<open>do { totalLength += wds->entryLength; wds++; } while (wds->entryLength);\<close>\<close>

fun wds_total :: "WDSElement list \<Rightarrow> u32 \<Rightarrow> fault + u32" where
  "wds_total [] totalLength = Inl ReadPastEnd"
| "wds_total [e] totalLength = Inl ReadPastEnd"
| "wds_total (e # e' # es) totalLength =
     (if entryLength e' \<noteq> 0
      then wds_total (e' # es) (totalLength + scast (entryLength e))
      else Inr (totalLength + scast (entryLength e)))"

text \<open>\<^verbatim>\<open>do { enc624j600_memcpy(dest, source, entryLen); dest += entryLen; wds++;
  entryLen = wds->entryLength; source = wds->entryPtr; } while (entryLen > 0);\<close>
  with \<^verbatim>\<open>dest\<close> as the offset \<open>dst\<close> into the transmit buffer.\<close>

fun wds_copy :: "WDSElement list \<Rightarrow> int \<Rightarrow> event list \<Rightarrow> fault + event list" where
  "wds_copy [] dst lg = Inl ReadPastEnd"
| "wds_copy [e] dst lg = Inl ReadPastEnd"
| "wds_copy (e # e' # es) dst lg =
     (if 0 < sint (entryLength e')
      then wds_copy (e' # es) (dst + sint (entryLength e))
             (lg @ [Ev_memcpy dst (entryPtr e) (entryLength e)])
      else Inr (lg @ [Ev_memcpy dst (entryPtr e) (entryLength e)]))"

definition doEWrite :: "driverGlobals \<Rightarrow> EParamBlk \<Rightarrow> event list \<Rightarrow> fault + (int \<times> event list)" where
  "doEWrite g pb lg =
     (case wds_total (wds pb) 0 of
        Inl f \<Rightarrow> Inl f
      | Inr totalLength \<Rightarrow>
          if totalLength + 4 > 1518 then Inr (eLenErr, lg)
          else (case wds_copy (wds pb) 0 lg of
                  Inl f \<Rightarrow> Inl f
                | Inr lg1 \<Rightarrow>
                    (let lg2 = lg1 @ [Ev_memcpy_hwaddr 6 (ethernetAddress (info g))]
                     in if chip_link_state g = LINK_DOWN then Inr (0, lg2)
                        else Inr (1, lg2 @ [Ev_transmit totalLength]))))"

subsection \<open>Control: \<^verbatim>\<open>driverControl\<close>\<close>

text \<open>
  The handlers of the other control codes (\<^verbatim>\<open>doEAddMulti\<close>, \<^verbatim>\<open>doEAttachPH\<close>,
  \<^verbatim>\<open>doENCReadReg\<close>, \<dots>) are not in the sources: they are the parameter \<open>other\<close>. The
  size of the info block, \<^verbatim>\<open>sizeof(theGlobals->info)\<close>, is the parameter \<open>sizeof_info\<close>
  (its declaration, sethernet.h, is not in the sources). \<^verbatim>\<open>eBuffSize\<close> is a \<^verbatim>\<open>short\<close>:
  the comparison is signed, against \<^verbatim>\<open>(short) sizeof(theGlobals->info)\<close>, and the byte
  count handed to \<^verbatim>\<open>BlockMoveData\<close> is the signed value of the field.
\<close>

definition driverControl ::
  "nat \<Rightarrow> (csCode \<Rightarrow> driverGlobals \<Rightarrow> EParamBlk \<Rightarrow> int \<times> EParamBlk \<times> driverGlobals) \<Rightarrow>
   driverGlobals \<Rightarrow> EParamBlk \<Rightarrow> event list \<Rightarrow>
   fault + (int \<times> EParamBlk \<times> driverGlobals \<times> event list)" where
  "driverControl sizeof_info other g pb lg =
     (case csCode pb of
        ENetRead \<Rightarrow> Inr (controlErr, pb, g, lg)
      | ENetRdCancel \<Rightarrow> Inr (controlErr, pb, g, lg)
      | ENetWrite \<Rightarrow>
          (case doEWrite g pb lg of
             Inl f \<Rightarrow> Inl f
           | Inr (r, lg') \<Rightarrow> Inr (r, pb, g, lg'))
      | ENetGetInfo \<Rightarrow>
          (let pb1 = (if sint (eBuffSize pb) > sint (word_of_nat sizeof_info :: u16)
                      then pb\<lparr>eBuffSize := word_of_nat sizeof_info\<rparr>
                      else pb)
           in Inr (noErr, pb1, g, lg @ [Ev_BlockMoveData (ePointer pb1) (sint (eBuffSize pb1))]))
      | ENetSetGeneral \<Rightarrow> Inr (noErr, pb, g, lg)
      | UnknownCode \<Rightarrow> Inr (controlErr, pb, g, lg)
      | c \<Rightarrow> (let (r, pb', g') = other c g pb in Inr (r, pb', g', lg @ [Ev_other_control])))"

subsection \<open>Concrete inputs\<close>

text \<open>A small driver state, frames and environments on which the theorems below are
  run. The environments answer every read with the same value.\<close>

definition info0 :: driverInfo where
  "info0 = \<lparr>ethernetAddress = [2, 0, 0, 0, 0, 1], rxPendingPacketsHWM = 0,
     rxPendingBytesHWM = 0, fcsErrors = 0, rxRunt = 0, rxTooLong = 0, rxUnwanted = 0,
     rxUnknownProto = 0, broadcastRxFrameCount = 0, multicastRxFrameCount = 0,
     rxFrameCount = 0, txFrameCount = 0, deferredFrames = 0, collisionFrames = 0,
     singleCollisionFrames = 0, multiCollisionFrames = 0, excessiveDeferrals = 0,
     excessiveCollisions = 0, lateCollisions = 0, internalTxErrors = 0,
     internalRxErrors = 0\<rparr>"

definition frame0 :: "u16 \<Rightarrow> rsv_bit set \<Rightarrow> hwAddr \<Rightarrow> u16 \<Rightarrow> ringbufEntry" where
  "frame0 len_le bits d proto =
     \<lparr>nextPkt_le = 0x0008,
      rsv = \<lparr>pkt_len_le = len_le, rsv_bits = bits\<rparr>,
      pktHeader = \<lparr>dest = d, source = [2, 0, 0, 0, 0, 9], protocol = proto\<rparr>\<rparr>"

text \<open>One handler, at address 4096, registered for ethertype \<open>0x0800\<close>; a second
  registration, for \<open>0x0806\<close>, without a handler routine; an empty multicast table.\<close>

definition globals0 :: driverGlobals where
  "globals0 = \<lparr>chip_link_state = LINK_UP, vmEnabled = False,
     protocolHandlers = [\<lparr>ethertype = 0x0800, handler = 4096\<rparr>,
                         \<lparr>ethertype = 0x0806, handler = nil\<rparr>],
     multicasts = [],
     rha = frame0 0 {} [] 0,
     info = info0\<rparr>"

definition etxstat0 :: etxstat where
  "etxstat0 = \<lparr>DEFER = False, EXDEFER = False, MAXCOL = False, LATECOL = False, COLCNT = 0\<rparr>"

definition env0 :: "ringbufEntry \<Rightarrow> irq set \<Rightarrow> int \<Rightarrow> env" where
  "env0 d irqs defer =
     \<lparr>enc624j600_read_rx_pending_count = (\<lambda>_. 1),
      enc624j600_read_rx_fifo_level = (\<lambda>_. 100),
      enc624j600_read_rxbuf = (\<lambda>_. d),
      enc624j600_read_irqstate = (\<lambda>_. irqs),
      read_ETXSTAT = (\<lambda>_. etxstat0),
      DeferUserFn = (\<lambda>_. defer)\<rparr>"

definition seg :: "nat \<Rightarrow> WDSElement" where
  "seg n = \<lparr>entryLength = of_nat n, entryPtr = 8192\<rparr>"

definition pb0 :: "csCode \<Rightarrow> WDSElement list \<Rightarrow> EParamBlk" where
  "pb0 c w = \<lparr>csCode = c, eBuffSize = 0, ePointer = 8192, wds = w\<rparr>"

subsection \<open>Reading a log\<close>

text \<open>The events one invocation appends to the log it was given, the arguments of the
  read-pointer updates among some events, the payload lengths handed to protocol handlers,
  and the ring descriptor an invocation of \<^verbatim>\<open>handlePacket\<close> copies (the answer of the
  chip to the header read, which follows the two statistics reads).\<close>

definition emitted :: "event list \<Rightarrow> event list \<Rightarrow> event list" where
  "emitted lg lg' = drop (length lg) lg'"

definition rxptr_updates :: "event list \<Rightarrow> u16 list" where
  "rxptr_updates evs =
     List.map_filter (\<lambda>e. case e of Ev_update_rxptr a \<Rightarrow> Some a | _ \<Rightarrow> None) evs"

definition handler_calls :: "event list \<Rightarrow> (ptr \<times> u16) list" where
  "handler_calls evs =
     List.map_filter (\<lambda>e. case e of Ev_callPH h n \<Rightarrow> Some (h, n) | _ \<Rightarrow> None) evs"

definition descriptor :: "env \<Rightarrow> event list \<Rightarrow> ringbufEntry" where
  "descriptor ev lg =
     enc624j600_read_rxbuf ev (lg @ [Ev_read_rx_pending_count, Ev_read_rx_fifo_level])"

text \<open>The state and the log of \<^verbatim>\<open>handlePacket\<close> once the descriptor has been copied;
  the decoded length field and the CRC flag of that descriptor.\<close>

definition after_header :: "env \<Rightarrow> driverGlobals \<Rightarrow> event list \<Rightarrow> driverGlobals" where
  "after_header ev g lg = (fst (record_fifo_stats ev g lg))\<lparr>rha := descriptor ev lg\<rparr>"

definition header_log :: "event list \<Rightarrow> event list" where
  "header_log lg = lg @ [Ev_read_rx_pending_count, Ev_read_rx_fifo_level, Ev_read_rxbuf]"

definition len_field :: "env \<Rightarrow> event list \<Rightarrow> u16" where
  "len_field ev lg = SWAPBYTES (pkt_len_le (rsv (descriptor ev lg)))"

definition crc_error :: "env \<Rightarrow> event list \<Rightarrow> bool" where
  "crc_error ev lg = RSV_BIT (rsv (descriptor ev lg)) RSV_BIT_CRC_ERR"

text \<open>The registry entry for the protocol identifier of a frame, as both revisions look it
  up at the label \<^verbatim>\<open>accept\<close>, and the handler call that follows from it for a payload
  length \<open>n\<close>: none when the entry is missing or holds no routine.\<close>

definition proto_slot :: "driverGlobals \<Rightarrow> ringbufEntry \<Rightarrow> protocolHandlerEntry option" where
  "proto_slot g d =
     (if protocol (pktHeader d) < 0x0600 then findPH g phProtocolPhaseII
      else findPH g (protocol (pktHeader d)))"

definition accept_calls :: "driverGlobals \<Rightarrow> ringbufEntry \<Rightarrow> u16 \<Rightarrow> (ptr \<times> u16) list" where
  "accept_calls g d n =
     (case proto_slot g d of
        None \<Rightarrow> []
      | Some slot \<Rightarrow> if handler slot = nil then [] else [(handler slot, n)])"

text \<open>A unicast frame for ethertype \<open>0x0800\<close> whose length field reads 65 after the byte
  swap.\<close>

definition unicast65 :: env where
  "unicast65 = env0 (frame0 0x4100 {RSV_BIT_UNICAST} [2, 0, 0, 0, 0, 1] 0x0800) {} 0"

text \<open>A frame with the multicast-match and hash-match bits only, to the address
  \<open>01:00:5e:00:00:01\<close>; a driver state whose multicast table holds that address.\<close>

definition multicast65 :: env where
  "multicast65 = env0 (frame0 0x4100 {RSV_BIT_MULTICAST, RSV_BIT_HASH_MATCH} [1, 0, 0x5e, 0, 0, 1] 0x0800) {} 0"

definition globals_mc :: driverGlobals where
  "globals_mc = globals0\<lparr>multicasts := [\<lparr>address = [1, 0, 0x5e, 0, 0, 1], refCount = 1\<rparr>]\<rparr>"

text \<open>Unicast frames of valid length: one for ethertype \<open>0x0900\<close>, which has no entry in
  the registry of \<open>globals0\<close>, and one for \<open>0x0806\<close>, whose entry holds no handler
  routine.\<close>

definition unregistered65 :: env where
  "unregistered65 = env0 (frame0 0x4100 {RSV_BIT_UNICAST} [2, 0, 0, 0, 0, 1] 0x0900) {} 0"

definition nilhandler65 :: env where
  "nilhandler65 = env0 (frame0 0x4100 {RSV_BIT_UNICAST} [2, 0, 0, 0, 0, 1] 0x0806) {} 0"

text \<open>A broadcast frame of valid length for the unregistered ethertype \<open>0x0900\<close>.\<close>

definition broadcast65 :: env where
  "broadcast65 =
     env0 (frame0 0x4100 {RSV_BIT_BROADCAST} [255, 255, 255, 255, 255, 255] 0x0900) {} 0"

text \<open>An info block after the address check has counted an accepted frame: nothing for
  a unicast match, the broadcast counter for a broadcast match, the multicast counter
  otherwise.\<close>

definition class_counted :: "ringbufEntry \<Rightarrow> driverInfo \<Rightarrow> driverInfo" where
  "class_counted d i =
     (if RSV_BIT (rsv d) RSV_BIT_UNICAST then i
      else if RSV_BIT (rsv d) RSV_BIT_BROADCAST
      then i\<lparr>broadcastRxFrameCount := broadcastRxFrameCount i + 1\<rparr>
      else i\<lparr>multicastRxFrameCount := multicastRxFrameCount i + 1\<rparr>)"

text \<open>The copies the second loop of \<^verbatim>\<open>doEWrite\<close> makes for a run of entries, starting
  at offset \<open>d\<close> of the transmit buffer.\<close>

fun copy_events :: "int \<Rightarrow> WDSElement list \<Rightarrow> event list" where
  "copy_events d [] = []"
| "copy_events d (e # es) =
     Ev_memcpy d (entryPtr e) (entryLength e) # copy_events (d + sint (entryLength e)) es"

text \<open>The number of bytes in a run of entries with positive lengths.\<close>

definition wds_bytes :: "WDSElement list \<Rightarrow> nat" where
  "wds_bytes segs = sum_list (map (\<lambda>e. nat (sint (entryLength e))) segs)"

text \<open>The driver state \<open>globals0\<close> with the link down.\<close>

definition globals_down :: driverGlobals where
  "globals_down = globals0\<lparr>chip_link_state := LINK_DOWN\<rparr>"

text \<open>The interrupt causes acknowledged by some events.\<close>

fun cleared_irqs :: "event list \<Rightarrow> irq set" where
  "cleared_irqs [] = {}"
| "cleared_irqs (Ev_clear_irq s # es) = s \<union> cleared_irqs es"
| "cleared_irqs (e # es) = cleared_irqs es"

text \<open>Whether the interrupts of the controller are masked after some events, given
  whether they were before. The source states the meaning of the two calls:
  \<^verbatim>\<open>enc624j600_disable_irq(chip, IRQ_ENABLE)\<close> is \<^verbatim>\<open>Mask all interrupts inside ISR\<close>, and
  \<^verbatim>\<open>enc624j600_enable_irq(chip, IRQ_ENABLE)\<close> is \<^verbatim>\<open>re-enable interrupts\<close>.\<close>

fun irq_masked :: "bool \<Rightarrow> event list \<Rightarrow> bool" where
  "irq_masked m [] = m"
| "irq_masked m (Ev_disable_irq s # es) = irq_masked (if IRQ_ENABLE \<in> s then True else m) es"
| "irq_masked m (Ev_enable_irq s # es) = irq_masked (if IRQ_ENABLE \<in> s then False else m) es"
| "irq_masked m (e # es) = irq_masked m es"

text \<open>The top half up to its third \<^verbatim>\<open>if\<close>: interrupts masked, status read, link and
  receive-overflow causes handled.\<close>

definition top_half :: "env \<Rightarrow> driverGlobals \<Rightarrow> event list \<Rightarrow> u32 \<times> driverGlobals \<times> event list" where
  "top_half ev g lg =
     top_inline (enc624j600_read_irqstate ev (lg @ [Ev_disable_irq {IRQ_ENABLE}])) g
       (lg @ [Ev_disable_irq {IRQ_ENABLE}, Ev_read_irqstate])"

text \<open>A packet-pending interrupt under virtual memory with a deferral that is refused
  (\<open>-625\<close>), and one with only the transmit-complete cause.\<close>

definition globals_vm :: driverGlobals where
  "globals_vm = globals0\<lparr>vmEnabled := True\<rparr>"

definition pkt_refused :: env where
  "pkt_refused = env0 (frame0 0x4100 {RSV_BIT_UNICAST} [2, 0, 0, 0, 0, 1] 0x0800) {IRQ_PKT} (- 625)"

definition tx_done :: env where
  "tx_done = env0 (frame0 0x4100 {RSV_BIT_UNICAST} [2, 0, 0, 0, 0, 1] 0x0800) {IRQ_TX} 0"

text \<open>A control handler for the codes whose code is not in the sources.\<close>

definition other0 :: "csCode \<Rightarrow> driverGlobals \<Rightarrow> EParamBlk \<Rightarrow> int \<times> EParamBlk \<times> driverGlobals" where
  "other0 c g pb = (0, pb, g)"

section \<open>Properties of the receive path\<close>

subsection \<open>Shape of the log of \<^verbatim>\<open>handlePacket\<close>\<close>

lemma record_fifo_stats_log:
  "snd (record_fifo_stats ev g lg) = lg @ [Ev_read_rx_pending_count, Ev_read_rx_fifo_level]"
  by (simp add: record_fifo_stats_def Let_def)

lemma accept_part000_log:
  "snd (accept_part000 g lg) = lg \<or> (\<exists>h n. snd (accept_part000 g lg) = lg @ [Ev_callPH h n])"
  by (simp add: accept_part000_def Let_def split: option.splits)

lemma classify_part000_log:
  "snd (classify_part000 g lg) = lg \<or> (\<exists>h n. snd (classify_part000 g lg) = lg @ [Ev_callPH h n])"
  using accept_part000_log by (simp add: classify_part000_def Let_def)

lemma accept_isr_log:
  "snd (accept_isr g lg) = lg \<or> (\<exists>h n. snd (accept_isr g lg) = lg @ [Ev_callPH h n])"
  by (simp add: accept_isr_def Let_def split: option.splits)

lemma classify_isr_log:
  "snd (classify_isr g lg) = lg \<or> (\<exists>h n. snd (classify_isr g lg) = lg @ [Ev_callPH h n])"
  using accept_isr_log by (simp add: classify_isr_def Let_def split: option.splits)

lemma accept_part000_rha: "rha (fst (accept_part000 g lg)) = rha g"
  by (simp add: accept_part000_def Let_def split: option.splits)

lemma classify_part000_rha: "rha (fst (classify_part000 g lg)) = rha g"
  by (simp add: classify_part000_def Let_def accept_part000_rha)

lemma accept_isr_rha: "rha (fst (accept_isr g lg)) = rha g"
  by (simp add: accept_isr_def Let_def split: option.splits)

lemma classify_isr_rha: "rha (fst (classify_isr g lg)) = rha g"
  by (simp add: classify_isr_def Let_def accept_isr_rha split: option.splits)

lemma handlePacket_part000_unfold:
  "handlePacket_part000 ev g lg =
     (fst (classify_part000 (after_header ev g lg) (header_log lg)),
      snd (classify_part000 (after_header ev g lg) (header_log lg)) @
        [Ev_update_rxptr (SWAPBYTES (nextPkt_le (descriptor ev lg))),
         Ev_decrement_rx_pending_count])"
proof (cases "record_fifo_stats ev g lg")
  case (Pair g1 lg1)
  then have "lg1 = lg @ [Ev_read_rx_pending_count, Ev_read_rx_fifo_level]"
    using record_fifo_stats_log [of ev g lg] by simp
  then show ?thesis
    using Pair
    by (simp add: handlePacket_part000_def read_header_def after_header_def header_log_def
        descriptor_def split: prod.splits)
qed

lemma handlePacket_isr_unfold:
  "handlePacket_isr ev g lg =
     (fst (classify_isr (after_header ev g lg) (header_log lg)),
      snd (classify_isr (after_header ev g lg) (header_log lg)) @
        [Ev_update_rxptr (SWAPBYTES (nextPkt_le (descriptor ev lg))),
         Ev_decrement_rx_pending_count])"
proof (cases "record_fifo_stats ev g lg")
  case (Pair g1 lg1)
  then have lg1: "lg1 = lg @ [Ev_read_rx_pending_count, Ev_read_rx_fifo_level]"
    using record_fifo_stats_log [of ev g lg] by simp
  have "rha (fst (classify_isr (after_header ev g lg) (header_log lg))) = descriptor ev lg"
    by (simp add: classify_isr_rha after_header_def)
  then show ?thesis
    using Pair lg1
    by (simp add: handlePacket_isr_def read_header_def after_header_def header_log_def
        descriptor_def case_prod_beta)
qed

lemma rxptr_updates_simps:
  "rxptr_updates [] = []"
  "rxptr_updates (Ev_update_rxptr a # es) = a # rxptr_updates es"
  "rxptr_updates (Ev_callPH h n # es) = rxptr_updates es"
  "rxptr_updates (Ev_read_rx_pending_count # es) = rxptr_updates es"
  "rxptr_updates (Ev_read_rx_fifo_level # es) = rxptr_updates es"
  "rxptr_updates (Ev_read_rxbuf # es) = rxptr_updates es"
  "rxptr_updates (Ev_decrement_rx_pending_count # es) = rxptr_updates es"
  by (simp_all add: rxptr_updates_def)

lemma handler_calls_simps:
  "handler_calls [] = []"
  "handler_calls (Ev_update_rxptr a # es) = handler_calls es"
  "handler_calls (Ev_callPH h n # es) = (h, n) # handler_calls es"
  "handler_calls (Ev_read_rx_pending_count # es) = handler_calls es"
  "handler_calls (Ev_read_rx_fifo_level # es) = handler_calls es"
  "handler_calls (Ev_read_rxbuf # es) = handler_calls es"
  "handler_calls (Ev_decrement_rx_pending_count # es) = handler_calls es"
  by (simp_all add: handler_calls_def)

lemma emitted_append: "emitted lg (lg @ evs) = evs"
  by (simp add: emitted_def)

lemma emitted_header_log: "emitted lg (header_log lg @ evs) =
    [Ev_read_rx_pending_count, Ev_read_rx_fifo_level, Ev_read_rxbuf] @ evs"
  by (simp add: emitted_def header_log_def)

text \<open>
  Claim C1. Every invocation of \<^verbatim>\<open>handlePacket\<close>, in both revisions and on every branch,
  keeps the log it was given and appends events among which there is exactly one update of
  the ring read pointer, to the next-packet address stored in the descriptor it copied
  (byte-swapped), and exactly one decrement of the pending-packet counter; the receive
  header area then holds that descriptor.
\<close>

theorem handlePacket_advances_ring_once:
  "take (length lg) (snd (handlePacket_part000 ev g lg)) = lg \<and>
   rxptr_updates (emitted lg (snd (handlePacket_part000 ev g lg))) =
     [SWAPBYTES (nextPkt_le (descriptor ev lg))] \<and>
   count_list (emitted lg (snd (handlePacket_part000 ev g lg))) Ev_decrement_rx_pending_count = 1 \<and>
   rha (fst (handlePacket_part000 ev g lg)) = descriptor ev lg \<and>
   take (length lg) (snd (handlePacket_isr ev g lg)) = lg \<and>
   rxptr_updates (emitted lg (snd (handlePacket_isr ev g lg))) =
     [SWAPBYTES (nextPkt_le (descriptor ev lg))] \<and>
   count_list (emitted lg (snd (handlePacket_isr ev g lg))) Ev_decrement_rx_pending_count = 1 \<and>
   rha (fst (handlePacket_isr ev g lg)) = descriptor ev lg"
proof -
  let ?g = "after_header ev g lg" and ?h = "header_log lg"
  have rg: "rha ?g = descriptor ev lg"
    by (simp add: after_header_def)
  have p: "snd (classify_part000 ?g ?h) = ?h \<or>
      (\<exists>a n. snd (classify_part000 ?g ?h) = ?h @ [Ev_callPH a n])"
    by (rule classify_part000_log)
  have i: "snd (classify_isr ?g ?h) = ?h \<or>
      (\<exists>a n. snd (classify_isr ?g ?h) = ?h @ [Ev_callPH a n])"
    by (rule classify_isr_log)
  have part: "take (length lg) (snd (handlePacket_part000 ev g lg)) = lg \<and>
     rxptr_updates (emitted lg (snd (handlePacket_part000 ev g lg))) =
       [SWAPBYTES (nextPkt_le (descriptor ev lg))] \<and>
     count_list (emitted lg (snd (handlePacket_part000 ev g lg))) Ev_decrement_rx_pending_count = 1"
    using p
    by (auto simp: handlePacket_part000_unfold header_log_def emitted_def rxptr_updates_simps)
  have isr: "take (length lg) (snd (handlePacket_isr ev g lg)) = lg \<and>
     rxptr_updates (emitted lg (snd (handlePacket_isr ev g lg))) =
       [SWAPBYTES (nextPkt_le (descriptor ev lg))] \<and>
     count_list (emitted lg (snd (handlePacket_isr ev g lg))) Ev_decrement_rx_pending_count = 1"
    using i
    by (auto simp: handlePacket_isr_unfold header_log_def emitted_def rxptr_updates_simps)
  have "rha (fst (handlePacket_part000 ev g lg)) = descriptor ev lg"
    by (simp add: handlePacket_part000_unfold classify_part000_rha rg)
  moreover have "rha (fst (handlePacket_isr ev g lg)) = descriptor ev lg"
    by (simp add: handlePacket_isr_unfold classify_isr_rha rg)
  ultimately show ?thesis
    using part isr by simp
qed

lemma accept_calls_info [simp]: "accept_calls (g\<lparr>info := i\<rparr>) d n = accept_calls g d n"
  by (simp add: accept_calls_def proto_slot_def findPH_def)

lemma pktLen_info [simp]:
  "pktLen_part000 (g\<lparr>info := i\<rparr>) = pktLen_part000 g"
  "pktLen_isr (g\<lparr>info := i\<rparr>) = pktLen_isr g"
  by (simp_all add: pktLen_part000_def pktLen_isr_def)

lemma accept_calls_cases: "accept_calls g d n = [] \<or> (\<exists>h. accept_calls g d n = [(h, n)])"
  by (simp add: accept_calls_def split: option.splits)

lemma len_range_part000:
  fixes L :: u16
  assumes "\<not> L < 64" "\<not> L > 1518"
  shows "\<not> L - 4 < 60" "\<not> L - 4 > 1514"
  using assms by unat_arith+

lemma after_header_fields:
  "rha (after_header ev g lg) = descriptor ev lg"
  "protocolHandlers (after_header ev g lg) = protocolHandlers g"
  "multicasts (after_header ev g lg) = multicasts g"
  "fcsErrors (info (after_header ev g lg)) = fcsErrors (info g)"
  "rxRunt (info (after_header ev g lg)) = rxRunt (info g)"
  "rxTooLong (info (after_header ev g lg)) = rxTooLong (info g)"
  "rxUnwanted (info (after_header ev g lg)) = rxUnwanted (info g)"
  "rxUnknownProto (info (after_header ev g lg)) = rxUnknownProto (info g)"
  "broadcastRxFrameCount (info (after_header ev g lg)) = broadcastRxFrameCount (info g)"
  "multicastRxFrameCount (info (after_header ev g lg)) = multicastRxFrameCount (info g)"
  "rxFrameCount (info (after_header ev g lg)) = rxFrameCount (info g)"
  by (simp_all add: after_header_def record_fifo_stats_def Let_def)

lemma lookups_after_header:
  "findPH (after_header ev g lg) p = findPH g p"
  "findMulticastEntry (after_header ev g lg) a = findMulticastEntry g a"
  "proto_slot (after_header ev g lg) d = proto_slot g d"
  "accept_calls (after_header ev g lg) d n = accept_calls g d n"
  by (simp_all add: findPH_def findMulticastEntry_def proto_slot_def accept_calls_def
      after_header_fields)

lemma pktLen_after_header:
  "pktLen_part000 (after_header ev g lg) = len_field ev lg - 4"
  "pktLen_isr (after_header ev g lg) = len_field ev lg"
  by (simp_all add: pktLen_part000_def pktLen_isr_def len_field_def after_header_fields)

lemma handler_calls_append: "handler_calls (xs @ ys) = handler_calls xs @ handler_calls ys"
  by (induction xs) (simp_all add: handler_calls_def split: option.splits)

lemma emitted_self: "emitted lg lg = []"
  by (simp add: emitted_def)

subsection \<open>The accept path and the classification\<close>

lemma accept_part000_eq:
  "accept_part000 g lg =
     (case proto_slot g (rha g) of
        None \<Rightarrow> (g\<lparr>info := (info g)\<lparr>rxUnknownProto := rxUnknownProto (info g) + 1\<rparr>\<rparr>, lg)
      | Some slot \<Rightarrow>
          if handler slot = nil
          then (g\<lparr>info := (info g)\<lparr>rxUnknownProto := rxUnknownProto (info g) + 1\<rparr>\<rparr>, lg)
          else (g\<lparr>info := (info g)\<lparr>rxFrameCount := rxFrameCount (info g) + 1\<rparr>\<rparr>,
                lg @ [Ev_callPH (handler slot) (pktLen_part000 g - 14)]))"
  by (simp add: accept_part000_def proto_slot_def Let_def sizeof_ethernetHeader_def
      split: option.splits)

lemma accept_isr_eq:
  "accept_isr g lg =
     (case proto_slot g (rha g) of
        None \<Rightarrow> (g, lg)
      | Some slot \<Rightarrow>
          if handler slot = nil
          then (g, lg)
          else (g\<lparr>info := (info g)\<lparr>rxFrameCount := rxFrameCount (info g) + 1\<rparr>\<rparr>,
                lg @ [Ev_callPH (handler slot) (pktLen_isr g - 18)]))"
  by (simp add: accept_isr_def proto_slot_def Let_def split: option.splits)

lemma accept_part000_counters:
  "fcsErrors (info (fst (accept_part000 g lg))) = fcsErrors (info g)"
  "rxRunt (info (fst (accept_part000 g lg))) = rxRunt (info g)"
  "rxTooLong (info (fst (accept_part000 g lg))) = rxTooLong (info g)"
  "rxUnwanted (info (fst (accept_part000 g lg))) = rxUnwanted (info g)"
  "multicastRxFrameCount (info (fst (accept_part000 g lg))) = multicastRxFrameCount (info g)"
  by (simp_all add: accept_part000_eq split: option.splits)

lemma accept_isr_counters:
  "fcsErrors (info (fst (accept_isr g lg))) = fcsErrors (info g)"
  "rxRunt (info (fst (accept_isr g lg))) = rxRunt (info g)"
  "rxTooLong (info (fst (accept_isr g lg))) = rxTooLong (info g)"
  "rxUnwanted (info (fst (accept_isr g lg))) = rxUnwanted (info g)"
  "rxUnknownProto (info (fst (accept_isr g lg))) = rxUnknownProto (info g)"
  "multicastRxFrameCount (info (fst (accept_isr g lg))) = multicastRxFrameCount (info g)"
  by (simp_all add: accept_isr_eq split: option.splits)

lemma accept_part000_calls:
  "handler_calls (emitted lg (snd (accept_part000 g lg))) = accept_calls g (rha g) (pktLen_part000 g - 14)"
  by (simp add: accept_part000_eq accept_calls_def emitted_def handler_calls_simps
      split: option.splits)

lemma accept_isr_calls:
  "handler_calls (emitted lg (snd (accept_isr g lg))) = accept_calls g (rha g) (pktLen_isr g - 18)"
  by (simp add: accept_isr_eq accept_calls_def emitted_def handler_calls_simps
      split: option.splits)

lemma classify_part000_runt:
  "rxRunt (info (fst (classify_part000 g lg))) = rxRunt (info g) +
     (if \<not> RSV_BIT (rsv (rha g)) RSV_BIT_CRC_ERR \<and> pktLen_part000 g < 60 then 1 else 0)"
  by (simp add: classify_part000_def Let_def accept_part000_counters)

lemma classify_part000_toolong:
  "rxTooLong (info (fst (classify_part000 g lg))) = rxTooLong (info g) +
     (if \<not> RSV_BIT (rsv (rha g)) RSV_BIT_CRC_ERR \<and> \<not> pktLen_part000 g < 60 \<and> pktLen_part000 g > 1514 then 1 else 0)"
  by (simp add: classify_part000_def Let_def accept_part000_counters)

lemma classify_isr_runt:
  "rxRunt (info (fst (classify_isr g lg))) = rxRunt (info g) +
     (if \<not> RSV_BIT (rsv (rha g)) RSV_BIT_CRC_ERR \<and> pktLen_isr g < 64 then 1 else 0)"
  by (simp add: classify_isr_def Let_def accept_isr_counters split: option.splits)

lemma classify_isr_toolong:
  "rxTooLong (info (fst (classify_isr g lg))) = rxTooLong (info g) +
     (if \<not> RSV_BIT (rsv (rha g)) RSV_BIT_CRC_ERR \<and> \<not> pktLen_isr g < 64 \<and> pktLen_isr g > 1518 then 1 else 0)"
  by (simp add: classify_isr_def Let_def accept_isr_counters split: option.splits)

lemma classify_part000_calls:
  "handler_calls (emitted lg (snd (classify_part000 g lg))) = [] \<or>
   handler_calls (emitted lg (snd (classify_part000 g lg))) = accept_calls g (rha g) (pktLen_part000 g - 14)"
  by (simp add: classify_part000_def Let_def emitted_self handler_calls_simps accept_part000_calls)

lemma classify_isr_calls:
  "handler_calls (emitted lg (snd (classify_isr g lg))) = [] \<or>
   handler_calls (emitted lg (snd (classify_isr g lg))) = accept_calls g (rha g) (pktLen_isr g - 18)"
  by (simp add: classify_isr_def Let_def emitted_self handler_calls_simps accept_isr_calls
      split: option.splits)

lemma handler_calls_handlePacket_part000:
  "handler_calls (emitted lg (snd (handlePacket_part000 ev g lg))) =
   handler_calls (emitted (header_log lg) (snd (classify_part000 (after_header ev g lg) (header_log lg))))"
  using classify_part000_log [of "after_header ev g lg" "header_log lg"]
  by (auto simp: handlePacket_part000_unfold emitted_def header_log_def handler_calls_simps)

lemma handler_calls_handlePacket_isr:
  "handler_calls (emitted lg (snd (handlePacket_isr ev g lg))) =
   handler_calls (emitted (header_log lg) (snd (classify_isr (after_header ev g lg) (header_log lg))))"
  using classify_isr_log [of "after_header ev g lg" "header_log lg"]
  by (auto simp: handlePacket_isr_unfold emitted_def header_log_def handler_calls_simps)


lemma counters_handlePacket_part000:
  "rxRunt (info (fst (handlePacket_part000 ev g lg))) =
     rxRunt (info (fst (classify_part000 (after_header ev g lg) (header_log lg))))"
  "rxTooLong (info (fst (handlePacket_part000 ev g lg))) =
     rxTooLong (info (fst (classify_part000 (after_header ev g lg) (header_log lg))))"
  "rxUnwanted (info (fst (handlePacket_part000 ev g lg))) =
     rxUnwanted (info (fst (classify_part000 (after_header ev g lg) (header_log lg))))"
  "rxUnknownProto (info (fst (handlePacket_part000 ev g lg))) =
     rxUnknownProto (info (fst (classify_part000 (after_header ev g lg) (header_log lg))))"
  "multicastRxFrameCount (info (fst (handlePacket_part000 ev g lg))) =
     multicastRxFrameCount (info (fst (classify_part000 (after_header ev g lg) (header_log lg))))"
  "rxFrameCount (info (fst (handlePacket_part000 ev g lg))) =
     rxFrameCount (info (fst (classify_part000 (after_header ev g lg) (header_log lg))))"
  by (simp_all add: handlePacket_part000_unfold)

lemma counters_handlePacket_isr:
  "rxRunt (info (fst (handlePacket_isr ev g lg))) =
     rxRunt (info (fst (classify_isr (after_header ev g lg) (header_log lg))))"
  "rxTooLong (info (fst (handlePacket_isr ev g lg))) =
     rxTooLong (info (fst (classify_isr (after_header ev g lg) (header_log lg))))"
  "rxUnwanted (info (fst (handlePacket_isr ev g lg))) =
     rxUnwanted (info (fst (classify_isr (after_header ev g lg) (header_log lg))))"
  "rxUnknownProto (info (fst (handlePacket_isr ev g lg))) =
     rxUnknownProto (info (fst (classify_isr (after_header ev g lg) (header_log lg))))"
  "multicastRxFrameCount (info (fst (handlePacket_isr ev g lg))) =
     multicastRxFrameCount (info (fst (classify_isr (after_header ev g lg) (header_log lg))))"
  "rxFrameCount (info (fst (handlePacket_isr ev g lg))) =
     rxFrameCount (info (fst (classify_isr (after_header ev g lg) (header_log lg))))"
  by (simp_all add: handlePacket_isr_unfold)

text \<open>
  Claim C2, amended. With \<open>L\<close> the byte-swapped little-endian length field of the receive
  status vector of the copied descriptor: in \<^verbatim>\<open>src/unnamed/part_000\<close> the frame length is
  \<open>L - 4\<close>, computed in 16 bits; it is the value compared with the minimum 60 and the
  maximum 1514, and a handler is called with that value less the 14 header bytes. In
  \<^verbatim>\<open>src/software/driver/isr.c\<close> the value compared with the minimum 64 and the maximum
  1518 is \<open>L\<close> itself, the frame check sequence included; only the payload length handed
  to a handler has it removed, being \<open>L - 18\<close>.
\<close>

theorem handlePacket_frame_length:
  "rxRunt (info (fst (handlePacket_part000 ev g lg))) =
     rxRunt (info g) + (if \<not> crc_error ev lg \<and> len_field ev lg - 4 < 60 then 1 else 0) \<and>
   rxTooLong (info (fst (handlePacket_part000 ev g lg))) =
     rxTooLong (info g) +
       (if \<not> crc_error ev lg \<and> \<not> len_field ev lg - 4 < 60 \<and> len_field ev lg - 4 > 1514
        then 1 else 0) \<and>
   (handler_calls (emitted lg (snd (handlePacket_part000 ev g lg))) = [] \<or>
    (\<exists>h. handler_calls (emitted lg (snd (handlePacket_part000 ev g lg))) =
       [(h, (len_field ev lg - 4) - 14)])) \<and>
   rxRunt (info (fst (handlePacket_isr ev g lg))) =
     rxRunt (info g) + (if \<not> crc_error ev lg \<and> len_field ev lg < 64 then 1 else 0) \<and>
   rxTooLong (info (fst (handlePacket_isr ev g lg))) =
     rxTooLong (info g) +
       (if \<not> crc_error ev lg \<and> \<not> len_field ev lg < 64 \<and> len_field ev lg > 1518
        then 1 else 0) \<and>
   (handler_calls (emitted lg (snd (handlePacket_isr ev g lg))) = [] \<or>
    (\<exists>h. handler_calls (emitted lg (snd (handlePacket_isr ev g lg))) =
       [(h, len_field ev lg - 18)]))"
proof -
  let ?g = "after_header ev g lg" and ?h = "header_log lg"
  have c: "RSV_BIT (rsv (rha ?g)) RSV_BIT_CRC_ERR = crc_error ev lg"
    by (simp add: crc_error_def after_header_fields)
  have 1: "rxRunt (info (fst (handlePacket_part000 ev g lg))) =
     rxRunt (info g) + (if \<not> crc_error ev lg \<and> len_field ev lg - 4 < 60 then 1 else 0)"
    by (simp add: counters_handlePacket_part000 classify_part000_runt pktLen_after_header
        after_header_fields crc_error_def)
  have 2: "rxTooLong (info (fst (handlePacket_part000 ev g lg))) =
     rxTooLong (info g) +
       (if \<not> crc_error ev lg \<and> \<not> len_field ev lg - 4 < 60 \<and> len_field ev lg - 4 > 1514
        then 1 else 0)"
    by (simp add: counters_handlePacket_part000 classify_part000_toolong pktLen_after_header
        after_header_fields crc_error_def)
  have 3: "handler_calls (emitted lg (snd (handlePacket_part000 ev g lg))) = [] \<or>
    (\<exists>h. handler_calls (emitted lg (snd (handlePacket_part000 ev g lg))) =
       [(h, (len_field ev lg - 4) - 14)])"
    using classify_part000_calls [of ?h ?g]
      accept_calls_cases [of ?g "rha ?g" "(len_field ev lg - 4) - 14"]
    by (auto simp: handler_calls_handlePacket_part000 pktLen_after_header)
  have 4: "rxRunt (info (fst (handlePacket_isr ev g lg))) =
     rxRunt (info g) + (if \<not> crc_error ev lg \<and> len_field ev lg < 64 then 1 else 0)"
    by (simp add: counters_handlePacket_isr classify_isr_runt pktLen_after_header
        after_header_fields crc_error_def)
  have 5: "rxTooLong (info (fst (handlePacket_isr ev g lg))) =
     rxTooLong (info g) +
       (if \<not> crc_error ev lg \<and> \<not> len_field ev lg < 64 \<and> len_field ev lg > 1518
        then 1 else 0)"
    by (simp add: counters_handlePacket_isr classify_isr_toolong pktLen_after_header
        after_header_fields crc_error_def)
  have 6: "handler_calls (emitted lg (snd (handlePacket_isr ev g lg))) = [] \<or>
    (\<exists>h. handler_calls (emitted lg (snd (handlePacket_isr ev g lg))) =
       [(h, len_field ev lg - 18)])"
    using classify_isr_calls [of ?h ?g]
      accept_calls_cases [of ?g "rha ?g" "len_field ev lg - 18"]
    by (auto simp: handler_calls_handlePacket_isr pktLen_after_header)
  from 1 2 3 4 5 6 show ?thesis by blast
qed

text \<open>The definitions to unfold when the model is run on a concrete input.\<close>

lemmas eval_defs = handlePacket_isr_def handlePacket_part000_def record_fifo_stats_def
  read_header_def classify_isr_def classify_part000_def accept_isr_def accept_part000_def
  pktLen_isr_def pktLen_part000_def env0_def frame0_def globals0_def info0_def RSV_BIT_def
  SWAPBYTES_def findPH_def findMulticastEntry_def phProtocolPhaseII_def nil_def
  sizeof_ethernetHeader_def emitted_def handler_calls_def rxptr_updates_def descriptor_def
  len_field_def crc_error_def proto_slot_def accept_calls_def

text \<open>
  The claim as stated fails on \<^verbatim>\<open>src/software/driver/isr.c\<close>: for a length field of 65 the
  claimed frame length is 61, below that revision's minimum of 64, yet the value the code
  holds in \<^verbatim>\<open>pktLen\<close> and compares is 65, the frame is not counted as a runt, and its
  handler is called (with 65 - 18 = 47 bytes of payload).
\<close>

theorem isr_length_check_counterexample:
  "len_field unicast65 [] = 65 \<and>
   len_field unicast65 [] - 4 = 61 \<and>
   len_field unicast65 [] - 4 < 64 \<and>
   pktLen_isr (fst (handlePacket_isr unicast65 globals0 [])) = 65 \<and>
   rxRunt (info (fst (handlePacket_isr unicast65 globals0 []))) = rxRunt (info globals0) \<and>
   handler_calls (emitted [] (snd (handlePacket_isr unicast65 globals0 []))) = [(4096, 47)]"
  by (simp add: eval_defs unicast65_def Let_def)

lemma classify_part000_multicast:
  assumes "RSV_BIT (rsv (rha g)) RSV_BIT_MULTICAST" "RSV_BIT (rsv (rha g)) RSV_BIT_HASH_MATCH"
    "\<not> RSV_BIT (rsv (rha g)) RSV_BIT_UNICAST" "\<not> RSV_BIT (rsv (rha g)) RSV_BIT_BROADCAST"
    "\<not> RSV_BIT (rsv (rha g)) RSV_BIT_CRC_ERR"
    "\<not> pktLen_part000 g < 60" "\<not> pktLen_part000 g > 1514"
  shows "classify_part000 g lg =
     accept_part000 (g\<lparr>info := (info g)\<lparr>multicastRxFrameCount := multicastRxFrameCount (info g) + 1\<rparr>\<rparr>) lg"
  using assms by (simp add: classify_part000_def)

lemma classify_isr_multicast:
  assumes "RSV_BIT (rsv (rha g)) RSV_BIT_MULTICAST" "RSV_BIT (rsv (rha g)) RSV_BIT_HASH_MATCH"
    "\<not> RSV_BIT (rsv (rha g)) RSV_BIT_UNICAST" "\<not> RSV_BIT (rsv (rha g)) RSV_BIT_BROADCAST"
    "\<not> RSV_BIT (rsv (rha g)) RSV_BIT_CRC_ERR"
    "\<not> pktLen_isr g < 64" "\<not> pktLen_isr g > 1518"
  shows "classify_isr g lg =
     (case findMulticastEntry g (dest (pktHeader (rha g))) of
        Some m \<Rightarrow> accept_isr (g\<lparr>info := (info g)\<lparr>multicastRxFrameCount := multicastRxFrameCount (info g) + 1\<rparr>\<rparr>) lg
      | None \<Rightarrow> (g\<lparr>info := (info g)\<lparr>rxUnwanted := rxUnwanted (info g) + 1\<rparr>\<rparr>, lg))"
  using assms by (simp add: classify_isr_def)

text \<open>
  Claim C4, amended. Take a frame that passed the CRC and length checks and whose status
  vector has the multicast-match and hash-match bits and neither the unicast-match nor the
  broadcast-match bit. In \<^verbatim>\<open>src/software/driver/isr.c\<close> it is counted as multicast and
  handed to the accept path (the handler registered for its protocol, if any, is called)
  exactly when its destination address has an entry in the multicast table; without an
  entry it is counted as unwanted and no handler is called. In \<^verbatim>\<open>src/unnamed/part_000\<close>
  it is counted as multicast and handed to the accept path whatever the table holds.
\<close>

theorem multicast_hash_match_filter:
  assumes "RSV_BIT (rsv (descriptor ev lg)) RSV_BIT_MULTICAST"
    and "RSV_BIT (rsv (descriptor ev lg)) RSV_BIT_HASH_MATCH"
    and "\<not> RSV_BIT (rsv (descriptor ev lg)) RSV_BIT_UNICAST"
    and "\<not> RSV_BIT (rsv (descriptor ev lg)) RSV_BIT_BROADCAST"
    and "\<not> RSV_BIT (rsv (descriptor ev lg)) RSV_BIT_CRC_ERR"
    and "\<not> len_field ev lg < 64" and "\<not> len_field ev lg > 1518"
  shows "(case findMulticastEntry g (dest (pktHeader (descriptor ev lg))) of
            None \<Rightarrow>
              rxUnwanted (info (fst (handlePacket_isr ev g lg))) = rxUnwanted (info g) + 1 \<and>
              multicastRxFrameCount (info (fst (handlePacket_isr ev g lg))) =
                multicastRxFrameCount (info g) \<and>
              handler_calls (emitted lg (snd (handlePacket_isr ev g lg))) = []
          | Some m \<Rightarrow>
              rxUnwanted (info (fst (handlePacket_isr ev g lg))) = rxUnwanted (info g) \<and>
              multicastRxFrameCount (info (fst (handlePacket_isr ev g lg))) =
                multicastRxFrameCount (info g) + 1 \<and>
              handler_calls (emitted lg (snd (handlePacket_isr ev g lg))) =
                accept_calls g (descriptor ev lg) (len_field ev lg - 18)) \<and>
         rxUnwanted (info (fst (handlePacket_part000 ev g lg))) = rxUnwanted (info g) \<and>
         multicastRxFrameCount (info (fst (handlePacket_part000 ev g lg))) =
           multicastRxFrameCount (info g) + 1 \<and>
         handler_calls (emitted lg (snd (handlePacket_part000 ev g lg))) =
           accept_calls g (descriptor ev lg) (len_field ev lg - 4 - 14)"
proof -
  let ?g = "after_header ev g lg" and ?h = "header_log lg"
  have bits: "RSV_BIT (rsv (rha ?g)) RSV_BIT_MULTICAST" "RSV_BIT (rsv (rha ?g)) RSV_BIT_HASH_MATCH"
    "\<not> RSV_BIT (rsv (rha ?g)) RSV_BIT_UNICAST" "\<not> RSV_BIT (rsv (rha ?g)) RSV_BIT_BROADCAST"
    "\<not> RSV_BIT (rsv (rha ?g)) RSV_BIT_CRC_ERR"
    using assms by (simp_all add: after_header_fields)
  have li: "\<not> pktLen_isr ?g < 64" "\<not> pktLen_isr ?g > 1518"
    using assms by (simp_all add: pktLen_after_header)
  have lp: "\<not> pktLen_part000 ?g < 60" "\<not> pktLen_part000 ?g > 1514"
    using len_range_part000 [OF assms(6,7)] by (simp_all add: pktLen_after_header)
  have ci: "classify_isr ?g ?h =
     (case findMulticastEntry g (dest (pktHeader (descriptor ev lg))) of
        Some m \<Rightarrow> accept_isr (?g\<lparr>info := (info ?g)\<lparr>multicastRxFrameCount := multicastRxFrameCount (info ?g) + 1\<rparr>\<rparr>) ?h
      | None \<Rightarrow> (?g\<lparr>info := (info ?g)\<lparr>rxUnwanted := rxUnwanted (info ?g) + 1\<rparr>\<rparr>, ?h))"
    using classify_isr_multicast [OF bits li, of ?h]
    by (simp add: lookups_after_header after_header_fields)
  have cp: "classify_part000 ?g ?h =
     accept_part000 (?g\<lparr>info := (info ?g)\<lparr>multicastRxFrameCount := multicastRxFrameCount (info ?g) + 1\<rparr>\<rparr>) ?h"
    by (rule classify_part000_multicast [OF bits lp])
  have isr: "(case findMulticastEntry g (dest (pktHeader (descriptor ev lg))) of
            None \<Rightarrow>
              rxUnwanted (info (fst (handlePacket_isr ev g lg))) = rxUnwanted (info g) + 1 \<and>
              multicastRxFrameCount (info (fst (handlePacket_isr ev g lg))) =
                multicastRxFrameCount (info g) \<and>
              handler_calls (emitted lg (snd (handlePacket_isr ev g lg))) = []
          | Some m \<Rightarrow>
              rxUnwanted (info (fst (handlePacket_isr ev g lg))) = rxUnwanted (info g) \<and>
              multicastRxFrameCount (info (fst (handlePacket_isr ev g lg))) =
                multicastRxFrameCount (info g) + 1 \<and>
              handler_calls (emitted lg (snd (handlePacket_isr ev g lg))) =
                accept_calls g (descriptor ev lg) (len_field ev lg - 18))"
    by (simp add: counters_handlePacket_isr handler_calls_handlePacket_isr ci
        accept_isr_counters accept_isr_calls after_header_fields lookups_after_header
        pktLen_after_header emitted_self handler_calls_simps split: option.splits)
  have part: "rxUnwanted (info (fst (handlePacket_part000 ev g lg))) = rxUnwanted (info g) \<and>
         multicastRxFrameCount (info (fst (handlePacket_part000 ev g lg))) =
           multicastRxFrameCount (info g) + 1 \<and>
         handler_calls (emitted lg (snd (handlePacket_part000 ev g lg))) =
           accept_calls g (descriptor ev lg) (len_field ev lg - 4 - 14)"
    by (simp add: counters_handlePacket_part000 handler_calls_handlePacket_part000 cp
        accept_part000_counters accept_part000_calls after_header_fields lookups_after_header
        pktLen_after_header)
  from isr part show ?thesis by simp
qed

text \<open>
  The claim as stated fails on \<^verbatim>\<open>src/unnamed/part_000\<close>: with an empty multicast table a
  hash-matched multicast frame is counted as multicast, not as unwanted, and its handler is
  called.
\<close>

theorem part000_multicast_counterexample:
  "RSV_BIT (rsv (descriptor multicast65 [])) RSV_BIT_MULTICAST \<and>
   RSV_BIT (rsv (descriptor multicast65 [])) RSV_BIT_HASH_MATCH \<and>
   findMulticastEntry globals0 (dest (pktHeader (descriptor multicast65 []))) = None \<and>
   multicastRxFrameCount (info (fst (handlePacket_part000 multicast65 globals0 []))) = 1 \<and>
   rxUnwanted (info (fst (handlePacket_part000 multicast65 globals0 []))) = 0 \<and>
   handler_calls (emitted [] (snd (handlePacket_part000 multicast65 globals0 []))) = [(4096, 47)]"
  by (simp add: eval_defs multicast65_def Let_def)

theorem multicast_hash_match_filter_witness:
  "rxUnwanted (info (fst (handlePacket_isr multicast65 globals0 []))) = 1 \<and>
   multicastRxFrameCount (info (fst (handlePacket_isr multicast65 globals0 []))) = 0 \<and>
   handler_calls (emitted [] (snd (handlePacket_isr multicast65 globals0 []))) = [] \<and>
   rxUnwanted (info (fst (handlePacket_isr multicast65 globals_mc []))) = 0 \<and>
   multicastRxFrameCount (info (fst (handlePacket_isr multicast65 globals_mc []))) = 1 \<and>
   handler_calls (emitted [] (snd (handlePacket_isr multicast65 globals_mc []))) = [(4096, 47)] \<and>
   multicastRxFrameCount (info (fst (handlePacket_part000 multicast65 globals0 []))) = 1"
proof -
  have b: "RSV_BIT (rsv (descriptor multicast65 [])) RSV_BIT_MULTICAST"
    "RSV_BIT (rsv (descriptor multicast65 [])) RSV_BIT_HASH_MATCH"
    "\<not> RSV_BIT (rsv (descriptor multicast65 [])) RSV_BIT_UNICAST"
    "\<not> RSV_BIT (rsv (descriptor multicast65 [])) RSV_BIT_BROADCAST"
    "\<not> RSV_BIT (rsv (descriptor multicast65 [])) RSV_BIT_CRC_ERR"
    "\<not> len_field multicast65 [] < 64" "\<not> len_field multicast65 [] > 1518"
    by (simp_all add: eval_defs multicast65_def)
  show ?thesis
    using multicast_hash_match_filter [OF b, of globals0]
      multicast_hash_match_filter [OF b, of globals_mc]
    by (simp add: eval_defs multicast65_def globals_mc_def)
qed

lemma accept_part000_unknown:
  assumes "proto_slot g (rha g) = None \<or> (\<exists>slot. proto_slot g (rha g) = Some slot \<and> handler slot = nil)"
  shows "accept_part000 g lg =
     (g\<lparr>info := (info g)\<lparr>rxUnknownProto := rxUnknownProto (info g) + 1\<rparr>\<rparr>, lg)"
  using assms by (auto simp: accept_part000_eq)

lemma accept_isr_unknown:
  assumes "proto_slot g (rha g) = None \<or> (\<exists>slot. proto_slot g (rha g) = Some slot \<and> handler slot = nil)"
  shows "accept_isr g lg = (g, lg)"
  using assms by (auto simp: accept_isr_eq)

lemma proto_slot_info [simp]: "proto_slot (g\<lparr>info := i\<rparr>) d = proto_slot g d"
  by (simp add: proto_slot_def findPH_def)

lemma classify_part000_unknown:
  assumes "\<not> RSV_BIT (rsv (rha g)) RSV_BIT_CRC_ERR"
    and "\<not> pktLen_part000 g < 60" and "\<not> pktLen_part000 g > 1514"
    and "RSV_BIT (rsv (rha g)) RSV_BIT_UNICAST \<or> RSV_BIT (rsv (rha g)) RSV_BIT_BROADCAST \<or>
         (RSV_BIT (rsv (rha g)) RSV_BIT_MULTICAST \<and> RSV_BIT (rsv (rha g)) RSV_BIT_HASH_MATCH)"
    and "proto_slot g (rha g) = None \<or> (\<exists>slot. proto_slot g (rha g) = Some slot \<and> handler slot = nil)"
  shows "rxUnknownProto (info (fst (classify_part000 g lg))) = rxUnknownProto (info g) + 1"
    and "rxFrameCount (info (fst (classify_part000 g lg))) = rxFrameCount (info g)"
    and "snd (classify_part000 g lg) = lg"
proof -
  have a: "accept_part000 (g\<lparr>info := i\<rparr>) lg =
      (g\<lparr>info := i\<lparr>rxUnknownProto := rxUnknownProto i + 1\<rparr>\<rparr>, lg)" for i
    using assms(5) accept_part000_unknown [of "g\<lparr>info := i\<rparr>" lg] by simp
  have b: "accept_part000 g lg =
      (g\<lparr>info := (info g)\<lparr>rxUnknownProto := rxUnknownProto (info g) + 1\<rparr>\<rparr>, lg)"
    using assms(5) by (rule accept_part000_unknown)
  show "rxUnknownProto (info (fst (classify_part000 g lg))) = rxUnknownProto (info g) + 1"
    and "rxFrameCount (info (fst (classify_part000 g lg))) = rxFrameCount (info g)"
    and "snd (classify_part000 g lg) = lg"
    using assms(1-4) by (auto simp: classify_part000_def Let_def a b)
qed

lemma classify_isr_unknown:
  assumes "proto_slot g (rha g) = None \<or> (\<exists>slot. proto_slot g (rha g) = Some slot \<and> handler slot = nil)"
  shows "rxUnknownProto (info (fst (classify_isr g lg))) = rxUnknownProto (info g)"
    and "rxFrameCount (info (fst (classify_isr g lg))) = rxFrameCount (info g)"
    and "snd (classify_isr g lg) = lg"
proof -
  have a: "accept_isr (g\<lparr>info := i\<rparr>) lg = (g\<lparr>info := i\<rparr>, lg)" for i
    using assms accept_isr_unknown [of "g\<lparr>info := i\<rparr>" lg] by simp
  have b: "accept_isr g lg = (g, lg)"
    using assms by (rule accept_isr_unknown)
  show "rxUnknownProto (info (fst (classify_isr g lg))) = rxUnknownProto (info g)"
    and "rxFrameCount (info (fst (classify_isr g lg))) = rxFrameCount (info g)"
    and "snd (classify_isr g lg) = lg"
    by (simp_all add: classify_isr_def Let_def a b split: option.splits)
qed

lemma classify_part000_unknown_info:
  assumes "\<not> RSV_BIT (rsv (rha g)) RSV_BIT_CRC_ERR"
    and "\<not> pktLen_part000 g < 60" and "\<not> pktLen_part000 g > 1514"
    and "RSV_BIT (rsv (rha g)) RSV_BIT_UNICAST \<or> RSV_BIT (rsv (rha g)) RSV_BIT_BROADCAST \<or>
         (RSV_BIT (rsv (rha g)) RSV_BIT_MULTICAST \<and> RSV_BIT (rsv (rha g)) RSV_BIT_HASH_MATCH)"
    and "proto_slot g (rha g) = None \<or> (\<exists>slot. proto_slot g (rha g) = Some slot \<and> handler slot = nil)"
  shows "info (fst (classify_part000 g lg)) =
     (class_counted (rha g) (info g))\<lparr>rxUnknownProto := rxUnknownProto (info g) + 1\<rparr>"
proof -
  have a: "accept_part000 (g\<lparr>info := i\<rparr>) lg =
      (g\<lparr>info := i\<lparr>rxUnknownProto := rxUnknownProto i + 1\<rparr>\<rparr>, lg)" for i
    using assms(5) accept_part000_unknown [of "g\<lparr>info := i\<rparr>" lg] by simp
  have b: "accept_part000 g lg =
      (g\<lparr>info := (info g)\<lparr>rxUnknownProto := rxUnknownProto (info g) + 1\<rparr>\<rparr>, lg)"
    using assms(5) by (rule accept_part000_unknown)
  show ?thesis
    using assms(1-4) by (auto simp: classify_part000_def Let_def a b class_counted_def)
qed

lemma classify_isr_unknown_info:
  assumes "\<not> RSV_BIT (rsv (rha g)) RSV_BIT_CRC_ERR"
    and "\<not> pktLen_isr g < 64" and "\<not> pktLen_isr g > 1518"
    and "RSV_BIT (rsv (rha g)) RSV_BIT_UNICAST \<or> RSV_BIT (rsv (rha g)) RSV_BIT_BROADCAST \<or>
         (RSV_BIT (rsv (rha g)) RSV_BIT_MULTICAST \<and> RSV_BIT (rsv (rha g)) RSV_BIT_HASH_MATCH)"
    and "proto_slot g (rha g) = None \<or> (\<exists>slot. proto_slot g (rha g) = Some slot \<and> handler slot = nil)"
  shows "info (fst (classify_isr g lg)) =
     (if RSV_BIT (rsv (rha g)) RSV_BIT_UNICAST \<or> RSV_BIT (rsv (rha g)) RSV_BIT_BROADCAST \<or>
         findMulticastEntry g (dest (pktHeader (rha g))) \<noteq> None
      then class_counted (rha g) (info g)
      else (info g)\<lparr>rxUnwanted := rxUnwanted (info g) + 1\<rparr>)"
proof -
  have a: "accept_isr (g\<lparr>info := i\<rparr>) lg = (g\<lparr>info := i\<rparr>, lg)" for i
    using assms(5) accept_isr_unknown [of "g\<lparr>info := i\<rparr>" lg] by simp
  have b: "accept_isr g lg = (g, lg)"
    using assms(5) by (rule accept_isr_unknown)
  show ?thesis
    using assms(1-4)
    by (auto simp: classify_isr_def Let_def a b class_counted_def split: option.splits)
qed

lemma record_fifo_stats_counters:
  "rxUnknownProto (info (fst (record_fifo_stats ev g lg))) = rxUnknownProto (info g)"
  "rxUnwanted (info (fst (record_fifo_stats ev g lg))) = rxUnwanted (info g)"
  by (simp_all add: record_fifo_stats_def Let_def)

lemma info_handlePacket:
  "info (fst (handlePacket_part000 ev g lg)) =
     info (fst (classify_part000 (after_header ev g lg) (header_log lg)))"
  "info (fst (handlePacket_isr ev g lg)) =
     info (fst (classify_isr (after_header ev g lg) (header_log lg)))"
  "info (after_header ev g lg) = info (fst (record_fifo_stats ev g lg))"
  by (simp_all add: handlePacket_part000_unfold handlePacket_isr_unfold after_header_def)

text \<open>
  Claim C7, amended. Take a frame that passed the CRC and length checks and carries an
  address-match bit (unicast, broadcast, or multicast with hash), and whose protocol
  identifier has no entry in the registry, or an entry without a handler routine. In both
  revisions no handler is called and the received-frame counter stays, and the two cases
  are treated alike. In \<^verbatim>\<open>src/unnamed/part_000\<close> the unknown-protocol counter goes up
  by one: the info block ends as the address check left it, with that counter
  incremented. In \<^verbatim>\<open>src/software/driver/isr.c\<close> the unknown-protocol counter does not
  move and the drop changes no counter at all: the info block ends exactly as the address
  check left it, which for a broadcast or table-matched multicast frame includes the
  broadcast or multicast counter, and for a multicast frame without a table entry the
  unwanted counter (that frame did not reach the lookup).
\<close>

theorem unknown_protocol_dropped:
  assumes "\<not> RSV_BIT (rsv (descriptor ev lg)) RSV_BIT_CRC_ERR"
    and "\<not> len_field ev lg < 64" and "\<not> len_field ev lg > 1518"
    and "RSV_BIT (rsv (descriptor ev lg)) RSV_BIT_UNICAST \<or>
         RSV_BIT (rsv (descriptor ev lg)) RSV_BIT_BROADCAST \<or>
         (RSV_BIT (rsv (descriptor ev lg)) RSV_BIT_MULTICAST \<and>
          RSV_BIT (rsv (descriptor ev lg)) RSV_BIT_HASH_MATCH)"
    and "proto_slot g (descriptor ev lg) = None \<or>
         (\<exists>slot. proto_slot g (descriptor ev lg) = Some slot \<and> handler slot = nil)"
  shows "rxUnknownProto (info (fst (handlePacket_part000 ev g lg))) = rxUnknownProto (info g) + 1 \<and>
         rxFrameCount (info (fst (handlePacket_part000 ev g lg))) = rxFrameCount (info g) \<and>
         handler_calls (emitted lg (snd (handlePacket_part000 ev g lg))) = [] \<and>
         rxUnknownProto (info (fst (handlePacket_isr ev g lg))) = rxUnknownProto (info g) \<and>
         rxFrameCount (info (fst (handlePacket_isr ev g lg))) = rxFrameCount (info g) \<and>
         handler_calls (emitted lg (snd (handlePacket_isr ev g lg))) = [] \<and>
         info (fst (handlePacket_part000 ev g lg)) =
           (class_counted (descriptor ev lg) (info (fst (record_fifo_stats ev g lg))))
             \<lparr>rxUnknownProto := rxUnknownProto (info g) + 1\<rparr> \<and>
         info (fst (handlePacket_isr ev g lg)) =
           (if RSV_BIT (rsv (descriptor ev lg)) RSV_BIT_UNICAST \<or>
               RSV_BIT (rsv (descriptor ev lg)) RSV_BIT_BROADCAST \<or>
               findMulticastEntry g (dest (pktHeader (descriptor ev lg))) \<noteq> None
            then class_counted (descriptor ev lg) (info (fst (record_fifo_stats ev g lg)))
            else (info (fst (record_fifo_stats ev g lg)))
                   \<lparr>rxUnwanted := rxUnwanted (info g) + 1\<rparr>)"
proof -
  let ?g = "after_header ev g lg" and ?h = "header_log lg"
  have crc: "\<not> RSV_BIT (rsv (rha ?g)) RSV_BIT_CRC_ERR"
    using assms(1) by (simp add: after_header_fields)
  have lp: "\<not> pktLen_part000 ?g < 60" "\<not> pktLen_part000 ?g > 1514"
    using len_range_part000 [OF assms(2,3)] by (simp_all add: pktLen_after_header)
  have li: "\<not> pktLen_isr ?g < 64" "\<not> pktLen_isr ?g > 1518"
    using assms(2,3) by (simp_all add: pktLen_after_header)
  have cls: "RSV_BIT (rsv (rha ?g)) RSV_BIT_UNICAST \<or> RSV_BIT (rsv (rha ?g)) RSV_BIT_BROADCAST \<or>
         (RSV_BIT (rsv (rha ?g)) RSV_BIT_MULTICAST \<and> RSV_BIT (rsv (rha ?g)) RSV_BIT_HASH_MATCH)"
    using assms(4) by (simp add: after_header_fields)
  have slot: "proto_slot ?g (rha ?g) = None \<or>
      (\<exists>slot. proto_slot ?g (rha ?g) = Some slot \<and> handler slot = nil)"
    using assms(5) by (simp add: after_header_fields lookups_after_header)
  note p = classify_part000_unknown [OF crc lp cls slot, of ?h]
  note i = classify_isr_unknown [OF slot, of ?h]
  have counters: "rxUnknownProto (info (fst (handlePacket_part000 ev g lg))) = rxUnknownProto (info g) + 1 \<and>
         rxFrameCount (info (fst (handlePacket_part000 ev g lg))) = rxFrameCount (info g) \<and>
         handler_calls (emitted lg (snd (handlePacket_part000 ev g lg))) = [] \<and>
         rxUnknownProto (info (fst (handlePacket_isr ev g lg))) = rxUnknownProto (info g) \<and>
         rxFrameCount (info (fst (handlePacket_isr ev g lg))) = rxFrameCount (info g) \<and>
         handler_calls (emitted lg (snd (handlePacket_isr ev g lg))) = []"
    by (simp add: counters_handlePacket_part000 counters_handlePacket_isr
        handler_calls_handlePacket_part000 handler_calls_handlePacket_isr p i
        after_header_fields emitted_self handler_calls_simps)
  have ip: "info (fst (handlePacket_part000 ev g lg)) =
           (class_counted (descriptor ev lg) (info (fst (record_fifo_stats ev g lg))))
             \<lparr>rxUnknownProto := rxUnknownProto (info g) + 1\<rparr>"
    using classify_part000_unknown_info [OF crc lp cls slot, of ?h]
    by (simp add: info_handlePacket after_header_fields record_fifo_stats_counters)
  have ii: "info (fst (handlePacket_isr ev g lg)) =
           (if RSV_BIT (rsv (descriptor ev lg)) RSV_BIT_UNICAST \<or>
               RSV_BIT (rsv (descriptor ev lg)) RSV_BIT_BROADCAST \<or>
               findMulticastEntry g (dest (pktHeader (descriptor ev lg))) \<noteq> None
            then class_counted (descriptor ev lg) (info (fst (record_fifo_stats ev g lg)))
            else (info (fst (record_fifo_stats ev g lg)))
                   \<lparr>rxUnwanted := rxUnwanted (info g) + 1\<rparr>)"
    using classify_isr_unknown_info [OF crc li cls slot, of ?h]
    by (simp add: info_handlePacket after_header_fields lookups_after_header
        record_fifo_stats_counters)
  from counters ip ii show ?thesis by simp
qed


text \<open>
  The claim as stated fails on \<^verbatim>\<open>src/software/driver/isr.c\<close>: a unicast frame for an
  unregistered ethertype is dropped with the info block unchanged but for the two
  high-water marks; no unknown-protocol counter moves.
\<close>

theorem isr_unknown_protocol_counterexample:
  "proto_slot globals0 (descriptor unregistered65 []) = None \<and>
   handler_calls (emitted [] (snd (handlePacket_isr unregistered65 globals0 []))) = [] \<and>
   rxUnknownProto (info (fst (handlePacket_isr unregistered65 globals0 []))) =
     rxUnknownProto (info globals0) \<and>
   info (fst (handlePacket_isr unregistered65 globals0 [])) =
     (info globals0)\<lparr>rxPendingPacketsHWM := 1, rxPendingBytesHWM := 100\<rparr>"
  by (simp add: eval_defs unregistered65_def Let_def)

theorem unknown_protocol_dropped_witness:
  "rxUnknownProto (info (fst (handlePacket_part000 unregistered65 globals0 []))) = 1 \<and>
   handler_calls (emitted [] (snd (handlePacket_part000 unregistered65 globals0 []))) = [] \<and>
   rxUnknownProto (info (fst (handlePacket_isr unregistered65 globals0 []))) = 0 \<and>
   rxUnknownProto (info (fst (handlePacket_part000 nilhandler65 globals0 []))) = 1 \<and>
   handler_calls (emitted [] (snd (handlePacket_part000 nilhandler65 globals0 []))) = [] \<and>
   rxUnknownProto (info (fst (handlePacket_isr nilhandler65 globals0 []))) = 0 \<and>
   handler_calls (emitted [] (snd (handlePacket_isr nilhandler65 globals0 []))) = [] \<and>
   info (fst (handlePacket_isr unregistered65 globals0 [])) =
     info0\<lparr>rxPendingPacketsHWM := 1, rxPendingBytesHWM := 100\<rparr> \<and>
   info (fst (handlePacket_isr broadcast65 globals0 [])) =
     info0\<lparr>rxPendingPacketsHWM := 1, rxPendingBytesHWM := 100, broadcastRxFrameCount := 1\<rparr> \<and>
   info (fst (handlePacket_part000 broadcast65 globals0 [])) =
     info0\<lparr>rxPendingPacketsHWM := 1, rxPendingBytesHWM := 100, broadcastRxFrameCount := 1,
       rxUnknownProto := 1\<rparr>"
proof -
  have a: "\<not> RSV_BIT (rsv (descriptor unregistered65 [])) RSV_BIT_CRC_ERR"
    "\<not> len_field unregistered65 [] < 64" "\<not> len_field unregistered65 [] > 1518"
    "RSV_BIT (rsv (descriptor unregistered65 [])) RSV_BIT_UNICAST \<or>
     RSV_BIT (rsv (descriptor unregistered65 [])) RSV_BIT_BROADCAST \<or>
     (RSV_BIT (rsv (descriptor unregistered65 [])) RSV_BIT_MULTICAST \<and>
      RSV_BIT (rsv (descriptor unregistered65 [])) RSV_BIT_HASH_MATCH)"
    "proto_slot globals0 (descriptor unregistered65 []) = None \<or>
     (\<exists>slot. proto_slot globals0 (descriptor unregistered65 []) = Some slot \<and> handler slot = nil)"
    by (simp_all add: eval_defs unregistered65_def)
  have b: "\<not> RSV_BIT (rsv (descriptor nilhandler65 [])) RSV_BIT_CRC_ERR"
    "\<not> len_field nilhandler65 [] < 64" "\<not> len_field nilhandler65 [] > 1518"
    "RSV_BIT (rsv (descriptor nilhandler65 [])) RSV_BIT_UNICAST \<or>
     RSV_BIT (rsv (descriptor nilhandler65 [])) RSV_BIT_BROADCAST \<or>
     (RSV_BIT (rsv (descriptor nilhandler65 [])) RSV_BIT_MULTICAST \<and>
      RSV_BIT (rsv (descriptor nilhandler65 [])) RSV_BIT_HASH_MATCH)"
    "proto_slot globals0 (descriptor nilhandler65 []) = None \<or>
     (\<exists>slot. proto_slot globals0 (descriptor nilhandler65 []) = Some slot \<and> handler slot = nil)"
    by (simp_all add: eval_defs nilhandler65_def)
  have c: "\<not> RSV_BIT (rsv (descriptor broadcast65 [])) RSV_BIT_CRC_ERR"
    "\<not> len_field broadcast65 [] < 64" "\<not> len_field broadcast65 [] > 1518"
    "RSV_BIT (rsv (descriptor broadcast65 [])) RSV_BIT_UNICAST \<or>
     RSV_BIT (rsv (descriptor broadcast65 [])) RSV_BIT_BROADCAST \<or>
     (RSV_BIT (rsv (descriptor broadcast65 [])) RSV_BIT_MULTICAST \<and>
      RSV_BIT (rsv (descriptor broadcast65 [])) RSV_BIT_HASH_MATCH)"
    "proto_slot globals0 (descriptor broadcast65 []) = None \<or>
     (\<exists>slot. proto_slot globals0 (descriptor broadcast65 []) = Some slot \<and> handler slot = nil)"
    by (simp_all add: eval_defs broadcast65_def)
  have s: "info (fst (record_fifo_stats unregistered65 globals0 [])) =
      info0\<lparr>rxPendingPacketsHWM := 1, rxPendingBytesHWM := 100\<rparr>"
    "info (fst (record_fifo_stats broadcast65 globals0 [])) =
      info0\<lparr>rxPendingPacketsHWM := 1, rxPendingBytesHWM := 100\<rparr>"
    "info (fst (record_fifo_stats nilhandler65 globals0 [])) =
      info0\<lparr>rxPendingPacketsHWM := 1, rxPendingBytesHWM := 100\<rparr>"
    "RSV_BIT (rsv (descriptor unregistered65 [])) RSV_BIT_UNICAST"
    "RSV_BIT (rsv (descriptor nilhandler65 [])) RSV_BIT_UNICAST"
    "\<not> RSV_BIT (rsv (descriptor broadcast65 [])) RSV_BIT_UNICAST"
    "RSV_BIT (rsv (descriptor broadcast65 [])) RSV_BIT_BROADCAST"
    by (simp_all add: eval_defs unregistered65_def nilhandler65_def broadcast65_def Let_def)
  have g0: "info globals0 = info0"
    by (simp add: globals0_def)
  show ?thesis
    using unknown_protocol_dropped [OF a] unknown_protocol_dropped [OF b]
      unknown_protocol_dropped [OF c]
    by (simp add: s class_counted_def g0 info0_def)
qed

section \<open>Properties of the transmit path\<close>

lemma scast_pos: "0 \<le> sint (w :: u16) \<Longrightarrow> (scast w :: u32) = of_nat (nat (sint w))"
  by (simp only: scast_eq word_of_int_nat)

lemma len_check:
  assumes "n < 4294967292"
  shows "((of_nat n :: u32) + 4 > 1518) = (n > 1514)"
proof -
  have "unat ((of_nat n :: u32) + 4) = n + 4"
    using assms by (simp add: unat_word_ariths unat_of_nat take_bit_nat_eq_self)
  then show ?thesis
    by (simp add: word_less_nat_alt)
qed

lemma wds_total_scan:
  "wds_total (e # es) acc =
     (if list_ex (\<lambda>x. entryLength x = 0) es
      then Inr (acc + scast (entryLength e) +
                sum_list (map (\<lambda>x. scast (entryLength x)) (takeWhile (\<lambda>x. entryLength x \<noteq> 0) es)))
      else Inl ReadPastEnd)"
proof (induction es arbitrary: e acc)
  case Nil
  show ?case by simp
next
  case (Cons x xs)
  show ?case
    by (simp add: Cons.IH add.assoc)
qed

lemma wds_copy_scan:
  "wds_copy (e # es) d lg =
     (if list_ex (\<lambda>x. \<not> 0 < sint (entryLength x)) es
      then Inr (lg @ copy_events d (e # takeWhile (\<lambda>x. 0 < sint (entryLength x)) es))
      else Inl ReadPastEnd)"
proof (induction es arbitrary: e d lg)
  case Nil
  show ?case by simp
next
  case (Cons x xs)
  show ?case
    by (simp add: Cons.IH)
qed

lemma sum_scast:
  assumes "\<forall>e\<in>set segs. 0 < sint (entryLength e)"
  shows "sum_list (map (\<lambda>x. scast (entryLength x) :: u32) segs) = of_nat (wds_bytes segs)"
  using assms
proof (induction segs)
  case Nil
  show ?case by (simp add: wds_bytes_def)
next
  case (Cons a segs)
  have pos: "0 \<le> sint (entryLength a)"
    using Cons.prems by simp
  have ih: "sum_list (map (\<lambda>x. scast (entryLength x) :: u32) segs) = of_nat (wds_bytes segs)"
    using Cons by simp
  have "sum_list (map (\<lambda>x. scast (entryLength x) :: u32) (a # segs)) =
      scast (entryLength a) + sum_list (map (\<lambda>x. scast (entryLength x)) segs)"
    by simp
  also have "\<dots> = of_nat (nat (sint (entryLength a))) + of_nat (wds_bytes segs)"
    by (simp only: scast_pos [OF pos] ih)
  also have "\<dots> = of_nat (wds_bytes (a # segs))"
    by (simp only: wds_bytes_def list.map sum_list.Cons of_nat_add)
  finally show ?case .
qed

lemma wds_total_wellformed:
  assumes "segs \<noteq> []" and "\<forall>e\<in>set segs. 0 < sint (entryLength e)" and "entryLength t = 0"
  shows "wds_total (segs @ t # rest) 0 = Inr (of_nat (wds_bytes segs))"
proof -
  obtain e es where segs: "segs = e # es"
    using assms(1) by (cases segs) auto
  have nz: "\<forall>x\<in>set es. entryLength x \<noteq> 0"
    using assms(2) segs by auto
  have tw: "takeWhile (\<lambda>x. entryLength x \<noteq> 0) (es @ t # rest) = es"
    using nz assms(3) by (simp add: takeWhile_append2)
  have "wds_total ((e # es) @ t # rest) 0 =
      Inr (0 + scast (entryLength e) + sum_list (map (\<lambda>x. scast (entryLength x)) es))"
    using assms(3) by (simp add: wds_total_scan tw del: wds_total.simps)
  also have "0 + scast (entryLength e) + sum_list (map (\<lambda>x. scast (entryLength x) :: u32) es) =
      sum_list (map (\<lambda>x. scast (entryLength x)) segs)"
    by (simp add: segs)
  finally show ?thesis
    using sum_scast [OF assms(2)] segs by simp
qed

lemma wds_copy_wellformed:
  assumes "segs \<noteq> []" and "\<forall>e\<in>set segs. 0 < sint (entryLength e)" and "entryLength t = 0"
  shows "wds_copy (segs @ t # rest) d lg = Inr (lg @ copy_events d segs)"
proof -
  obtain e es where segs: "segs = e # es"
    using assms(1) by (cases segs) auto
  have pos: "\<forall>x\<in>set es. 0 < sint (entryLength x)"
    using assms(2) segs by auto
  have tw: "takeWhile (\<lambda>x. 0 < sint (entryLength x)) (es @ t # rest) = es"
    using pos assms(3) by (simp add: takeWhile_append2)
  show ?thesis
    using assms(3) by (simp add: segs wds_copy_scan tw del: wds_copy.simps)
qed

text \<open>
  Claim C3, amended. For a scatter list of one or more segments of positive length closed
  by a zero-length entry: if the lengths total at most 1514 bytes (1514 + 4 \<le> 1518) and
  the link is up, \<^verbatim>\<open>doEWrite\<close> copies the segments in order, writes the source address,
  starts the transmission with that total and returns 1; if they total 1515 bytes or
  more, it returns \<^verbatim>\<open>eLenErr\<close> and makes no call to the chip at all.
\<close>

theorem doEWrite_length_limit:
  assumes "segs \<noteq> []" and "\<forall>e\<in>set segs. 0 < sint (entryLength e)" and "entryLength t = 0"
    and "wds pb = segs @ t # rest"
  shows "(wds_bytes segs \<le> 1514 \<and> chip_link_state g \<noteq> LINK_DOWN \<longrightarrow>
            doEWrite g pb lg =
              Inr (1, lg @ copy_events 0 segs @
                     [Ev_memcpy_hwaddr 6 (ethernetAddress (info g)),
                      Ev_transmit (of_nat (wds_bytes segs))])) \<and>
         (1514 < wds_bytes segs \<and> wds_bytes segs < 4294967292 \<longrightarrow>
            doEWrite g pb lg = Inr (eLenErr, lg))"
proof -
  have t: "wds_total (wds pb) 0 = Inr (of_nat (wds_bytes segs))"
    using wds_total_wellformed [OF assms(1-3)] assms(4) by simp
  have c: "wds_copy (wds pb) 0 lg = Inr (lg @ copy_events 0 segs)"
    using wds_copy_wellformed [OF assms(1-3)] assms(4) by simp
  have small: "wds_bytes segs \<le> 1514 \<Longrightarrow> \<not> (of_nat (wds_bytes segs) :: u32) + 4 > 1518"
    using len_check [of "wds_bytes segs"] by simp
  have big: "1514 < wds_bytes segs \<Longrightarrow> wds_bytes segs < 4294967292 \<Longrightarrow>
      (of_nat (wds_bytes segs) :: u32) + 4 > 1518"
    using len_check [of "wds_bytes segs"] by simp
  show ?thesis
    using small big by (auto simp: doEWrite_def t c)
qed

text \<open>The definitions to unfold when \<^verbatim>\<open>doEWrite\<close> is run on a concrete input.\<close>

lemmas tx_defs = doEWrite_def seg_def pb0_def globals0_def info0_def wds_bytes_def
  eLenErr_def noErr_def

text \<open>
  The claim as stated fails: a scatter list totalling 1515 bytes is rejected, since
  1515 + 4 = 1519 exceeds 1518.
\<close>

theorem doEWrite_1515_counterexample:
  "wds_bytes [seg 1515] = 1515 \<and>
   doEWrite globals0 (pb0 ENetWrite [seg 1515, seg 0]) [] = Inr (eLenErr, [])"
  by (simp add: tx_defs)

theorem doEWrite_length_limit_witness:
  "doEWrite globals0 (pb0 ENetWrite [seg 1000, seg 514, seg 0]) [] =
     Inr (1, [Ev_memcpy 0 8192 1000, Ev_memcpy 1000 8192 514,
              Ev_memcpy_hwaddr 6 [2, 0, 0, 0, 0, 1], Ev_transmit 1514]) \<and>
   doEWrite globals0 (pb0 ENetWrite [seg 1516, seg 0]) [] = Inr (eLenErr, [])"
proof -
  have a: "[seg 1000, seg 514] \<noteq> []" "\<forall>e\<in>set [seg 1000, seg 514]. 0 < sint (entryLength e)"
    "entryLength (seg 0) = 0"
    "wds (pb0 ENetWrite [seg 1000, seg 514, seg 0]) = [seg 1000, seg 514] @ seg 0 # []"
    by (simp_all add: seg_def pb0_def)
  have b: "[seg 1516] \<noteq> []" "\<forall>e\<in>set [seg 1516]. 0 < sint (entryLength e)"
    "entryLength (seg 0) = 0"
    "wds (pb0 ENetWrite [seg 1516, seg 0]) = [seg 1516] @ seg 0 # []"
    by (simp_all add: seg_def pb0_def)
  show ?thesis
    using doEWrite_length_limit [OF a, of globals0 "[]"]
      doEWrite_length_limit [OF b, of globals0 "[]"]
    by (simp add: seg_def globals0_def info0_def wds_bytes_def)
qed

text \<open>
  Claim C9. Both loops of \<^verbatim>\<open>doEWrite\<close> handle the first entry before they test any
  length: the total always includes the first entry, whatever its length, and the scan
  stops at the first zero-length entry among those after the first (the copy loop: the
  first entry after the first whose length is not positive). A list that begins with
  the zero-length terminator is therefore not taken as empty: the scan goes on to the
  entries behind it, and past the memory given when none of them has length zero.
\<close>

theorem doEWrite_first_entry_unchecked:
  "wds_total (e # es) acc =
     (if list_ex (\<lambda>x. entryLength x = 0) es
      then Inr (acc + scast (entryLength e) +
                sum_list (map (\<lambda>x. scast (entryLength x)) (takeWhile (\<lambda>x. entryLength x \<noteq> 0) es)))
      else Inl ReadPastEnd) \<and>
   wds_copy (e # es) d lg =
     (if list_ex (\<lambda>x. \<not> 0 < sint (entryLength x)) es
      then Inr (lg @ copy_events d (e # takeWhile (\<lambda>x. 0 < sint (entryLength x)) es))
      else Inl ReadPastEnd) \<and>
   doEWrite globals0 (pb0 ENetWrite [seg 0]) [] = Inl ReadPastEnd \<and>
   doEWrite globals0 (pb0 ENetWrite [seg 0, seg 100, seg 0]) [] =
     Inr (1, [Ev_memcpy 0 8192 0, Ev_memcpy 0 8192 100,
              Ev_memcpy_hwaddr 6 [2, 0, 0, 0, 0, 1], Ev_transmit 100])"
proof -
  have "doEWrite globals0 (pb0 ENetWrite [seg 0]) [] = Inl ReadPastEnd"
    by (simp add: tx_defs)
  moreover have "doEWrite globals0 (pb0 ENetWrite [seg 0, seg 100, seg 0]) [] =
     Inr (1, [Ev_memcpy 0 8192 0, Ev_memcpy 0 8192 100,
              Ev_memcpy_hwaddr 6 [2, 0, 0, 0, 0, 1], Ev_transmit 100])"
    by (simp add: tx_defs)
  ultimately show ?thesis
    by (simp only: wds_total_scan wds_copy_scan simp_thms)
qed

lemma copy_events_no_transmit: "Ev_transmit n \<notin> set (copy_events d xs)"
  by (induction xs arbitrary: d) simp_all

lemma doEWrite_link_down_no_transmit:
  assumes "chip_link_state g = LINK_DOWN" and "doEWrite g pb lg = Inr (r, lg')"
  shows "(r = eLenErr \<and> lg' = lg) \<or> (r = 0 \<and> Ev_transmit n \<notin> set (emitted lg lg'))"
proof (cases "wds pb")
  case Nil
  then show ?thesis
    using assms(2) by (simp add: doEWrite_def)
next
  case (Cons e es)
  show ?thesis
    using assms
    by (auto simp: doEWrite_def Cons wds_total_scan wds_copy_scan emitted_def
        copy_events_no_transmit
        simp del: wds_total.simps wds_copy.simps copy_events.simps
        split: if_splits)
qed

text \<open>
  Claim C8. With the link down and a scatter list of valid length, \<^verbatim>\<open>doEWrite\<close> returns
  0, which is \<^verbatim>\<open>noErr\<close>, the code for success, after it has copied the frame and the
  source address into the transmit buffer; \<^verbatim>\<open>enc624j600_transmit\<close> is not called. The
  source marks the return value with \<^verbatim>\<open>TODO: find an appropriate error code\<close>.
\<close>

theorem doEWrite_link_down_returns_noErr:
  "chip_link_state globals_down = LINK_DOWN \<and>
   doEWrite globals_down (pb0 ENetWrite [seg 60, seg 0]) [] =
     Inr (noErr, [Ev_memcpy 0 8192 60, Ev_memcpy_hwaddr 6 [2, 0, 0, 0, 0, 1]])"
  by (simp add: tx_defs globals_down_def)

section \<open>Properties of the interrupt dispatcher\<close>

lemma top_inline_log:
  "\<exists>evs. snd (snd (top_inline st g lg)) = lg @ evs \<and>
     cleared_irqs evs \<inter> {IRQ_TX, IRQ_TX_ABORT, IRQ_PKT} = {} \<and>
     (\<forall>m. irq_masked m (evs @ rest) = irq_masked m rest)"
  by (simp add: top_inline_def Let_def)

lemma top_inline_vm: "vmEnabled (fst (snd (top_inline st g lg))) = vmEnabled g"
  by (simp add: top_inline_def Let_def)

lemma cleared_irqs_append: "cleared_irqs (xs @ ys) = cleared_irqs xs \<union> cleared_irqs ys"
  by (induction xs rule: cleared_irqs.induct) auto

text \<open>
  Claim C6, amended. When the top half (\<^verbatim>\<open>_driverISR\<close> of \<^verbatim>\<open>src/software/driver/isr.c\<close>,
  \<^verbatim>\<open>driverISR\<close> of \<^verbatim>\<open>src/unnamed/part_000\<close> built for the SE/30) finds a transmit,
  transmit-abort or packet-pending cause with virtual memory active and \<^verbatim>\<open>DeferUserFn\<close>
  refuses, it returns 0 (not handled) without having acknowledged any of these three
  causes, and its last call re-enables the interrupts of the controller: they are not
  left masked. It returns normally; the refusal is not fatal.
\<close>

theorem deferral_refused:
  assumes "enc624j600_read_irqstate ev (lg @ [Ev_disable_irq {IRQ_ENABLE}]) \<inter>
             {IRQ_TX, IRQ_TX_ABORT, IRQ_PKT} \<noteq> {}"
    and "vmEnabled g"
    and "DeferUserFn ev (snd (snd (top_half ev g lg))) \<noteq> noErr"
  shows "driverISR_part000 TARGET_SE30 ev g lg =
           Some (0, fst (snd (top_half ev g lg)),
                 snd (snd (top_half ev g lg)) @ [Ev_DeferUserFn, Ev_enable_irq {IRQ_ENABLE}]) \<and>
         driverISR_isr ev g lg =
           Some (0, fst (snd (top_half ev g lg)),
                 snd (snd (top_half ev g lg)) @ [Ev_DeferUserFn, Ev_enable_irq {IRQ_ENABLE}]) \<and>
         take (length lg) (snd (snd (top_half ev g lg))) = lg \<and>
         cleared_irqs (emitted lg
             (snd (snd (top_half ev g lg)) @ [Ev_DeferUserFn, Ev_enable_irq {IRQ_ENABLE}])) \<inter>
           {IRQ_TX, IRQ_TX_ABORT, IRQ_PKT} = {} \<and>
         \<not> irq_masked m (emitted lg
             (snd (snd (top_half ev g lg)) @ [Ev_DeferUserFn, Ev_enable_irq {IRQ_ENABLE}]))"
proof -
  let ?st = "enc624j600_read_irqstate ev (lg @ [Ev_disable_irq {IRQ_ENABLE}])"
  let ?l0 = "lg @ [Ev_disable_irq {IRQ_ENABLE}, Ev_read_irqstate]"
  obtain h g1 lg1 where t: "top_inline ?st g ?l0 = (h, g1, lg1)"
    by (cases "top_inline ?st g ?l0") auto
  have th: "top_half ev g lg = (h, g1, lg1)"
    by (simp add: top_half_def t)
  have vm: "vmEnabled g1"
    using top_inline_vm [of ?st g ?l0] assms(2) t by simp
  obtain evs where evs: "lg1 = ?l0 @ evs"
    "cleared_irqs evs \<inter> {IRQ_TX, IRQ_TX_ABORT, IRQ_PKT} = {}"
    "\<And>m. irq_masked m (evs @ [Ev_DeferUserFn, Ev_enable_irq {IRQ_ENABLE}]) =
        irq_masked m [Ev_DeferUserFn, Ev_enable_irq {IRQ_ENABLE}]"
    using top_inline_log [of ?st g ?l0 "[Ev_DeferUserFn, Ev_enable_irq {IRQ_ENABLE}]"] t
    by auto
  have ref: "DeferUserFn ev lg1 \<noteq> noErr"
    using assms(3) th by simp
  have p: "driverISR_part000 TARGET_SE30 ev g lg =
      Some (0, g1, lg1 @ [Ev_DeferUserFn, Ev_enable_irq {IRQ_ENABLE}])"
    using assms(1) vm ref t by (simp add: driverISR_part000_def)
  have i: "driverISR_isr ev g lg =
      Some (0, g1, lg1 @ [Ev_DeferUserFn, Ev_enable_irq {IRQ_ENABLE}])"
    using assms(1) vm ref t by (simp add: driverISR_isr_def)
  have em: "emitted lg (lg1 @ [Ev_DeferUserFn, Ev_enable_irq {IRQ_ENABLE}]) =
      [Ev_disable_irq {IRQ_ENABLE}, Ev_read_irqstate] @ evs @
      [Ev_DeferUserFn, Ev_enable_irq {IRQ_ENABLE}]"
    by (simp add: evs(1) emitted_def)
  have c: "cleared_irqs (emitted lg (lg1 @ [Ev_DeferUserFn, Ev_enable_irq {IRQ_ENABLE}])) \<inter>
      {IRQ_TX, IRQ_TX_ABORT, IRQ_PKT} = {}"
    using evs(2) by (simp add: em cleared_irqs_append)
  have k: "\<not> irq_masked m (emitted lg (lg1 @ [Ev_DeferUserFn, Ev_enable_irq {IRQ_ENABLE}]))"
    by (simp add: em evs(3))
  show ?thesis
    using p i c k by (simp add: th evs(1))
qed

text \<open>The definitions to unfold when the dispatcher is run on a concrete input.\<close>

lemmas isr_defs = driverISR_part000_def driverISR_isr_def top_inline_def top_half_def
  userISR_part000_def userISR_isr_def tx_part_part000_def tx_part_isr_def
  tx_complete_stats_def tx_abort_stats_def env0_def etxstat0_def globals0_def info0_def
  noErr_def excessCollsns_def emitted_def

text \<open>
  The claim as stated fails in both revisions: on a refused deferral the interrupts of
  the controller are enabled again before the function returns.
\<close>

theorem deferral_refused_counterexample:
  "vmEnabled globals_vm \<and>
   DeferUserFn pkt_refused [Ev_disable_irq {IRQ_ENABLE}, Ev_read_irqstate] \<noteq> noErr \<and>
   driverISR_part000 TARGET_SE30 pkt_refused globals_vm [] =
     Some (0, globals_vm,
           [Ev_disable_irq {IRQ_ENABLE}, Ev_read_irqstate, Ev_DeferUserFn,
            Ev_enable_irq {IRQ_ENABLE}]) \<and>
   driverISR_isr pkt_refused globals_vm [] =
     Some (0, globals_vm,
           [Ev_disable_irq {IRQ_ENABLE}, Ev_read_irqstate, Ev_DeferUserFn,
            Ev_enable_irq {IRQ_ENABLE}]) \<and>
   \<not> irq_masked True
       [Ev_disable_irq {IRQ_ENABLE}, Ev_read_irqstate, Ev_DeferUserFn,
        Ev_enable_irq {IRQ_ENABLE}]"
  by (simp add: isr_defs pkt_refused_def globals_vm_def)

theorem deferral_refused_witness:
  "driverISR_part000 TARGET_SE30 pkt_refused globals_vm [] =
     Some (0, globals_vm,
           [Ev_disable_irq {IRQ_ENABLE}, Ev_read_irqstate, Ev_DeferUserFn,
            Ev_enable_irq {IRQ_ENABLE}]) \<and>
   cleared_irqs
     [Ev_disable_irq {IRQ_ENABLE}, Ev_read_irqstate, Ev_DeferUserFn, Ev_enable_irq {IRQ_ENABLE}] \<inter>
     {IRQ_TX, IRQ_TX_ABORT, IRQ_PKT} = {}"
proof -
  have a: "enc624j600_read_irqstate pkt_refused ([] @ [Ev_disable_irq {IRQ_ENABLE}]) \<inter>
             {IRQ_TX, IRQ_TX_ABORT, IRQ_PKT} \<noteq> {}"
    "vmEnabled globals_vm"
    "DeferUserFn pkt_refused (snd (snd (top_half pkt_refused globals_vm []))) \<noteq> noErr"
    by (simp_all add: isr_defs pkt_refused_def globals_vm_def)
  show ?thesis
    using deferral_refused [OF a, of True]
    by (simp add: isr_defs pkt_refused_def globals_vm_def)
qed

subsection \<open>The bottom half\<close>

lemma handlePacket_part000_extends:
  "\<exists>evs. snd (handlePacket_part000 ev g lg) = lg @ evs"
  using classify_part000_log [of "after_header ev g lg" "header_log lg"]
  by (auto simp: handlePacket_part000_unfold header_log_def)

lemma rx_loop_part000_extends:
  assumes "rx_loop_part000 ev g lg = Some r"
  shows "\<exists>evs. snd r = lg @ evs"
proof (rule rx_loop_part000.raw_induct [OF _ assms])
  fix f :: "env \<Rightarrow> driverGlobals \<Rightarrow> event list \<Rightarrow> (driverGlobals \<times> event list) option"
  fix ev g lg r
  assume ih: "\<And>ev g lg r. f ev g lg = Some r \<Longrightarrow> \<exists>evs. snd r = lg @ evs"
    and eq: "(if IRQ_PKT \<in> enc624j600_read_irqstate ev lg
      then f ev (fst (handlePacket_part000 ev g (lg @ [Ev_read_irqstate])))
             (snd (handlePacket_part000 ev g (lg @ [Ev_read_irqstate])))
      else Some (g, lg @ [Ev_read_irqstate])) = Some r"
  show "\<exists>evs. snd r = lg @ evs"
  proof (cases "IRQ_PKT \<in> enc624j600_read_irqstate ev lg")
    case True
    obtain evs where a: "snd (handlePacket_part000 ev g (lg @ [Ev_read_irqstate])) =
        (lg @ [Ev_read_irqstate]) @ evs"
      using handlePacket_part000_extends by blast
    from eq True have step: "f ev (fst (handlePacket_part000 ev g (lg @ [Ev_read_irqstate])))
        (snd (handlePacket_part000 ev g (lg @ [Ev_read_irqstate]))) = Some r"
      by simp
    from ih [OF step] obtain evs' where
      "snd r = snd (handlePacket_part000 ev g (lg @ [Ev_read_irqstate])) @ evs'"
      by blast
    then show ?thesis
      by (simp add: a)
  next
    case False
    with eq show ?thesis by auto
  qed
qed

text \<open>In \<^verbatim>\<open>src/unnamed/part_000\<close> a transmit-complete cause is acknowledged before the
  completion is signalled, whenever the bottom half returns.\<close>

lemma userISR_part000_clears_before_signal:
  assumes "IRQ_TX \<in> enc624j600_read_irqstate ev lg"
    and "userISR_part000 ev g lg = Some (g', lg')"
  shows "\<exists>rest. lg' = lg @ [Ev_read_irqstate, Ev_read_ETXSTAT, Ev_clear_irq {IRQ_TX},
      Ev_IODone noErr] @ rest"
proof -
  have t: "snd (tx_part_part000 ev g lg) =
      lg @ [Ev_read_irqstate, Ev_read_ETXSTAT, Ev_clear_irq {IRQ_TX}, Ev_IODone noErr]"
    using assms(1) by (simp add: tx_part_part000_def Let_def)
  obtain r where r: "rx_loop_part000 ev (fst (tx_part_part000 ev g lg))
      (snd (tx_part_part000 ev g lg)) = Some r" and l: "lg' = snd r @ [Ev_enable_irq {IRQ_ENABLE}]"
    using assms(2) by (auto simp: userISR_part000_def split: option.splits)
  from rx_loop_part000_extends [OF r] obtain evs where
    "snd r = snd (tx_part_part000 ev g lg) @ evs" by blast
  then show ?thesis
    by (simp add: l t)
qed

text \<open>
  Claim C5. On a transmit-complete cause the bottom half of
  \<^verbatim>\<open>src/software/driver/isr.c\<close> calls \<^verbatim>\<open>IODone\<close> first and clears the cause bit after
  it; the bottom half of \<^verbatim>\<open>src/unnamed/part_000\<close> clears the bit first, and says why:
  \<^verbatim>\<open>Must acknowledge the transmit interrupt *before* calling IODone\<close>. Both are run here
  on an interrupt status that holds the transmit-complete cause only.
\<close>

theorem userISR_isr_signals_before_clear:
  "IRQ_TX \<in> enc624j600_read_irqstate tx_done [] \<and>
   map_option snd (userISR_isr tx_done globals0 []) =
     Some [Ev_read_irqstate, Ev_read_ETXSTAT, Ev_IODone noErr, Ev_clear_irq {IRQ_TX},
           Ev_read_irqstate, Ev_enable_irq {IRQ_ENABLE}] \<and>
   map_option snd (userISR_part000 tx_done globals0 []) =
     Some [Ev_read_irqstate, Ev_read_ETXSTAT, Ev_clear_irq {IRQ_TX}, Ev_IODone noErr,
           Ev_read_irqstate, Ev_enable_irq {IRQ_ENABLE}]"
  by (simp add: isr_defs tx_done_def rx_loop_isr.simps rx_loop_part000.simps Let_def)

section \<open>Properties of the control entry point\<close>

lemma sint16_of_nat: "n < 32768 \<Longrightarrow> sint (word_of_nat n :: u16) = int n"
  by (simp add: signed_of_nat signed_take_bit_int_eq_self)

text \<open>
  Claim C10. For the get-info call, with an info block of fewer than 32768 bytes: when
  the buffer size stated by the caller (a signed 16-bit field) is larger than the info
  block, \<^verbatim>\<open>BlockMoveData\<close> is called with the size of the info block as its byte count
  and the field of the parameter block is overwritten with that size; otherwise it is
  called with the stated size and the parameter block is left as it was. The call
  returns \<^verbatim>\<open>noErr\<close> and changes nothing in the driver state.
\<close>

theorem getInfo_buffer_size:
  assumes "csCode pb = ENetGetInfo" and "sizeof_info < 32768"
  shows "driverControl sizeof_info other g pb lg =
     (if int sizeof_info < sint (eBuffSize pb)
      then Inr (noErr, pb\<lparr>eBuffSize := word_of_nat sizeof_info\<rparr>, g,
                lg @ [Ev_BlockMoveData (ePointer pb) (int sizeof_info)])
      else Inr (noErr, pb, g, lg @ [Ev_BlockMoveData (ePointer pb) (sint (eBuffSize pb))])) \<and>
     sint (eBuffSize (pb\<lparr>eBuffSize := word_of_nat sizeof_info\<rparr>)) = int sizeof_info"
  using assms by (simp add: driverControl_def Let_def sint16_of_nat)

theorem getInfo_buffer_size_witness:
  "driverControl 86 other0 globals0 ((pb0 ENetGetInfo [])\<lparr>eBuffSize := 200\<rparr>) [] =
     Inr (noErr, (pb0 ENetGetInfo [])\<lparr>eBuffSize := 86\<rparr>, globals0, [Ev_BlockMoveData 8192 86]) \<and>
   driverControl 86 other0 globals0 ((pb0 ENetGetInfo [])\<lparr>eBuffSize := 50\<rparr>) [] =
     Inr (noErr, (pb0 ENetGetInfo [])\<lparr>eBuffSize := 50\<rparr>, globals0, [Ev_BlockMoveData 8192 50])"
proof -
  have a: "csCode ((pb0 ENetGetInfo [])\<lparr>eBuffSize := 200\<rparr>) = ENetGetInfo"
    "csCode ((pb0 ENetGetInfo [])\<lparr>eBuffSize := 50\<rparr>) = ENetGetInfo" "(86::nat) < 32768"
    by (simp_all add: pb0_def)
  show ?thesis
    using getInfo_buffer_size [OF a(1) a(3), of other0 globals0 "[]"]
      getInfo_buffer_size [OF a(2) a(3), of other0 globals0 "[]"]
    by (simp add: pb0_def)
qed

end
